theory Spec2Isabelle
  imports Main
begin

section \<open>Strings\<close>

text \<open>
  The inbound-email route works on JavaScript strings.  A string is modelled as a
  \<^typ>\<open>string\<close>, one \<^typ>\<open>char\<close> per code unit, so the model covers the
  strings whose code units lie between 0 and 255 (ASCII and Latin-1).  In that range
  \<open>\s\<close> and \<open>trim\<close> know the six ASCII white-space characters and the no-break
  space U+00A0, a line terminator is LF or CR, and \<open>toLowerCase\<close> maps A to Z and the
  Latin-1 capitals U+00C0 to U+00DE (the sign U+00D7 apart) to the letter 32 places
  on.  Two characters are equal under the flag \<open>i\<close> exactly when \<open>toLowerCase\<close> maps
  them to the same character.  \<open>toUpperCase\<close> is the inverse mapping; it leaves U+00B5,
  U+00DF and U+00FF alone, whose capitals lie outside the range, and the route only
  compares its result with \<open>AM\<close> and \<open>PM\<close>, which no capital of these three yields.
\<close>

definition LF :: char where "LF = CHR 0x0A"
definition CR :: char where "CR = CHR 0x0D"
definition backslash :: char where "backslash = CHR 0x5C"
definition dquote :: char where "dquote = CHR 0x22"

definition isSpace :: "char \<Rightarrow> bool" where
  "isSpace c =
     (c \<in> set [CHR 0x09, CHR 0x0A, CHR 0x0B, CHR 0x0C, CHR 0x0D, CHR '' '', CHR 0xA0])"

definition isLineTerminator :: "char \<Rightarrow> bool" where
  "isLineTerminator c = (c = CHR 0x0A \<or> c = CHR 0x0D)"

definition isDigit :: "char \<Rightarrow> bool" where
  "isDigit c = (c \<in> set ''0123456789'')"

definition isAlpha :: "char \<Rightarrow> bool" where
  "isAlpha c = (c \<in> set ''abcdefghijklmnopqrstuvwxyzABCDEFGHIJKLMNOPQRSTUVWXYZ'')"

definition capitals :: string where
  "capitals =
     ''ABCDEFGHIJKLMNOPQRSTUVWXYZ'' @
     [CHR 0xC0, CHR 0xC1, CHR 0xC2, CHR 0xC3, CHR 0xC4, CHR 0xC5, CHR 0xC6, CHR 0xC7,
      CHR 0xC8, CHR 0xC9, CHR 0xCA, CHR 0xCB, CHR 0xCC, CHR 0xCD, CHR 0xCE, CHR 0xCF,
      CHR 0xD0, CHR 0xD1, CHR 0xD2, CHR 0xD3, CHR 0xD4, CHR 0xD5, CHR 0xD6, CHR 0xD8,
      CHR 0xD9, CHR 0xDA, CHR 0xDB, CHR 0xDC, CHR 0xDD, CHR 0xDE]"

definition smallLetters :: string where
  "smallLetters =
     ''abcdefghijklmnopqrstuvwxyz'' @
     [CHR 0xE0, CHR 0xE1, CHR 0xE2, CHR 0xE3, CHR 0xE4, CHR 0xE5, CHR 0xE6, CHR 0xE7,
      CHR 0xE8, CHR 0xE9, CHR 0xEA, CHR 0xEB, CHR 0xEC, CHR 0xED, CHR 0xEE, CHR 0xEF,
      CHR 0xF0, CHR 0xF1, CHR 0xF2, CHR 0xF3, CHR 0xF4, CHR 0xF5, CHR 0xF6, CHR 0xF8,
      CHR 0xF9, CHR 0xFA, CHR 0xFB, CHR 0xFC, CHR 0xFD, CHR 0xFE]"

definition toLowerChar :: "char \<Rightarrow> char" where
  "toLowerChar c = (case map_of (zip capitals smallLetters) c of Some l \<Rightarrow> l | None \<Rightarrow> c)"

text \<open>
  The same function on the bits of the character (the bit of weight 32 is set when
  the character is a capital), for evaluation.
\<close>

lemma toLowerChar_bits [code]:
  "toLowerChar (Char b0 b1 b2 b3 b4 b5 b6 b7) =
     (if b6 \<and> \<not> b5 \<and>
         (if b7 then \<not> (b4 \<and> b2 \<and> b1 \<and> b0)
          else (b0 \<or> b1 \<or> b2 \<or> b3 \<or> b4) \<and> \<not> (b4 \<and> b3 \<and> (b2 \<or> (b1 \<and> b0))))
      then Char b0 b1 b2 b3 b4 True b6 b7
      else Char b0 b1 b2 b3 b4 b5 b6 b7)"
  by (cases b0; cases b1; cases b2; cases b3; cases b4; cases b5; cases b6; cases b7;
      simp add: toLowerChar_def capitals_def smallLetters_def)

definition toUpperChar :: "char \<Rightarrow> char" where
  "toUpperChar c = (case map_of (zip smallLetters capitals) c of Some u \<Rightarrow> u | None \<Rightarrow> c)"

definition toLowerCase :: "string \<Rightarrow> string" where
  "toLowerCase s = map toLowerChar s"

definition toUpperCase :: "string \<Rightarrow> string" where
  "toUpperCase s = map toUpperChar s"

definition trim :: "string \<Rightarrow> string" where
  "trim s = rev (dropWhile isSpace (rev (dropWhile isSpace s)))"

definition startsWith :: "string \<Rightarrow> string \<Rightarrow> bool" where
  "startsWith s p = (take (length p) s = p)"

fun includes_str :: "string \<Rightarrow> string \<Rightarrow> bool" where
  "includes_str [] p = (p = [])"
| "includes_str (c # cs) p = (startsWith (c # cs) p \<or> includes_str cs p)"

text \<open>\<open>s.split(c)\<close> for a one-character separator: never the empty list.\<close>

fun split_char :: "char \<Rightarrow> string \<Rightarrow> string list" where
  "split_char sep [] = [[]]"
| "split_char sep (c # cs) =
     (if c = sep then [] # split_char sep cs
      else (case split_char sep cs of
              l # ls \<Rightarrow> (c # l) # ls
            | [] \<Rightarrow> [[c]]))"

text \<open>\<open>s.split(/\r?\n/)\<close>: a separator is LF, or CR directly followed by LF.\<close>

fun split_lines :: "string \<Rightarrow> string list" where
  "split_lines [] = [[]]"
| "split_lines [c] = (if c = LF then [[], []] else [[c]])"
| "split_lines (c # d # cs) =
     (if c = LF then [] # split_lines (d # cs)
      else if c = CR \<and> d = LF then [] # split_lines cs
      else (case split_lines (d # cs) of
              l # ls \<Rightarrow> (c # l) # ls
            | [] \<Rightarrow> [[c]]))"

text \<open>The operator \<open>||\<close> on strings (the empty string is falsy) and on nullable strings.\<close>

definition or_str :: "string \<Rightarrow> string \<Rightarrow> string" where
  "or_str a b = (if a \<noteq> [] then a else b)"

definition truthy :: "string option \<Rightarrow> bool" where
  "truthy a = (case a of Some s \<Rightarrow> s \<noteq> [] | None \<Rightarrow> False)"

definition or_opt :: "string option \<Rightarrow> string option \<Rightarrow> string option" where
  "or_opt a b = (if truthy a then a else b)"

text \<open>Decimal rendering of a non-negative integer, and \<open>parseInt(s, 10)\<close> on digits.\<close>

fun show_nat :: "nat \<Rightarrow> string" where
  "show_nat n =
     (if n < 10 then [''0123456789'' ! n]
      else show_nat (n div 10) @ [''0123456789'' ! (n mod 10)])"

declare show_nat.simps [simp del]

definition digit_val :: "char \<Rightarrow> nat" where
  "digit_val c =
     (case map_of (zip ''0123456789'' [0, 1, 2, 3, 4, 5, 6, 7, 8, 9]) c of
        Some n \<Rightarrow> n
      | None \<Rightarrow> 0)"

definition parseInt :: "string \<Rightarrow> nat" where
  "parseInt s = foldl (\<lambda>n c. 10 * n + digit_val c) 0 (takeWhile isDigit s)"

definition padStart2 :: "string \<Rightarrow> string" where
  "padStart2 s = replicate (2 - length s) CHR ''0'' @ s"


section \<open>Regular expressions\<close>

text \<open>
  The route's regular expressions are kept as syntax trees and run by a backtracking
  matcher written with continuations, the way ECMA-262 defines them: a matcher takes
  the continuation that must accept the rest, alternatives are tried left to right,
  and \<open>*\<close> is greedy and gives up an iteration that consumed nothing.  A state is the
  input already read (reversed), the input still to read, and the captures.  The flag
  \<open>i\<close> is part of an atom (\<open>chr_i\<close>), the flag \<open>m\<close> part of an anchor.
  \<open>r+\<close> is written \<open>Rep1 r\<close> and \<open>r?\<close> is written \<open>Opt r\<close>; in every pattern
  of the route the repeated or optional part consumes at least one character.
\<close>

datatype regex =
    Eps
  | Atom "char \<Rightarrow> bool"
  | Seq regex regex
  | Alt regex regex
  | Star regex
  | Group nat regex
  | Bol bool
  | Eol bool

type_synonym rstate = "string \<times> string \<times> (nat \<times> string) list"

primrec repeatMatcher ::
  "nat \<Rightarrow> ((rstate \<Rightarrow> rstate option) \<Rightarrow> rstate \<Rightarrow> rstate option) \<Rightarrow>
     (rstate \<Rightarrow> rstate option) \<Rightarrow> rstate \<Rightarrow> rstate option" where
  "repeatMatcher 0 m k st = k st"
| "repeatMatcher (Suc n) m k st =
     (case m (\<lambda>st'. if length (fst (snd st')) < length (fst (snd st))
                     then repeatMatcher n m k st' else None) st of
        Some r \<Rightarrow> Some r
      | None \<Rightarrow> k st)"

primrec matcher :: "regex \<Rightarrow> (rstate \<Rightarrow> rstate option) \<Rightarrow> rstate \<Rightarrow> rstate option" where
  "matcher Eps k st = k st"
| "matcher (Atom P) k st =
     (case st of (pre, rest, caps) \<Rightarrow>
        (case rest of
           [] \<Rightarrow> None
         | c # cs \<Rightarrow> if P c then k (c # pre, cs, caps) else None))"
| "matcher (Seq r1 r2) k st = matcher r1 (\<lambda>st'. matcher r2 k st') st"
| "matcher (Alt r1 r2) k st =
     (case matcher r1 k st of Some r \<Rightarrow> Some r | None \<Rightarrow> matcher r2 k st)"
| "matcher (Star r) k st = repeatMatcher (Suc (length (fst (snd st)))) (matcher r) k st"
| "matcher (Group n r) k st =
     matcher r (\<lambda>st'. case st' of (pre', rest', caps') \<Rightarrow>
        k (pre', rest',
           (n, take (length (fst (snd st)) - length rest') (fst (snd st))) # caps')) st"
| "matcher (Bol m) k st =
     (case st of (pre, rest, caps) \<Rightarrow>
        if pre = [] \<or> (m \<and> isLineTerminator (hd pre)) then k st else None)"
| "matcher (Eol m) k st =
     (case st of (pre, rest, caps) \<Rightarrow>
        if rest = [] \<or> (m \<and> isLineTerminator (hd rest)) then k st else None)"

definition chr :: "char \<Rightarrow> regex" where
  "chr c = Atom (\<lambda>x. x = c)"

definition chr_i :: "char \<Rightarrow> regex" where
  "chr_i c = Atom (\<lambda>x. toLowerChar x = toLowerChar c)"

definition lit :: "string \<Rightarrow> regex" where
  "lit s = foldr (\<lambda>c r. Seq (chr c) r) s Eps"

definition lit_i :: "string \<Rightarrow> regex" where
  "lit_i s = foldr (\<lambda>c r. Seq (chr_i c) r) s Eps"

definition Rep1 :: "regex \<Rightarrow> regex" where
  "Rep1 r = Seq r (Star r)"

definition Opt :: "regex \<Rightarrow> regex" where
  "Opt r = Alt r Eps"

definition ws :: regex where
  "ws = Atom isSpace"

definition dot :: regex where
  "dot = Atom (\<lambda>c. \<not> isLineTerminator c)"

definition digit :: regex where
  "digit = Atom isDigit"

fun seqs :: "regex list \<Rightarrow> regex" where
  "seqs [] = Eps"
| "seqs [r] = r"
| "seqs (r # rs) = Seq r (seqs rs)"

text \<open>One attempt at a position; the leftmost match; \<open>test\<close>, \<open>match\<close>, \<open>replace\<close>.\<close>

definition exec :: "regex \<Rightarrow> string \<Rightarrow> string \<Rightarrow> rstate option" where
  "exec r pre rest = matcher r Some (pre, rest, [])"

fun search :: "regex \<Rightarrow> string \<Rightarrow> string \<Rightarrow> (string \<times> rstate) option" where
  "search r pre [] =
     (case exec r pre [] of Some st \<Rightarrow> Some (pre, st) | None \<Rightarrow> None)"
| "search r pre (c # cs) =
     (case exec r pre (c # cs) of
        Some st \<Rightarrow> Some (pre, st)
      | None \<Rightarrow> search r (c # pre) cs)"

definition test :: "regex \<Rightarrow> string \<Rightarrow> bool" where
  "test r s = (search r [] s \<noteq> None)"

definition match :: "regex \<Rightarrow> string \<Rightarrow> (nat \<times> string) list option" where
  "match r s =
     (case search r [] s of
        Some (pre, pre', rest', caps) \<Rightarrow> Some caps
      | None \<Rightarrow> None)"

definition replace_first :: "regex \<Rightarrow> string \<Rightarrow> string \<Rightarrow> string" where
  "replace_first r rep s =
     (case search r [] s of
        Some (pre, pre', rest', caps) \<Rightarrow> rev pre @ rep @ rest'
      | None \<Rightarrow> s)"

fun replace_from :: "regex \<Rightarrow> string \<Rightarrow> string \<Rightarrow> string \<Rightarrow> string" where
  "replace_from r rep pre [] = (case exec r pre [] of Some st \<Rightarrow> rep | None \<Rightarrow> [])"
| "replace_from r rep pre (c # cs) =
     (case exec r pre (c # cs) of
        Some (pre', rest', caps) \<Rightarrow>
          if length rest' < length (c # cs) then rep @ replace_from r rep pre' rest'
          else rep @ c # replace_from r rep (c # pre) cs
      | None \<Rightarrow> c # replace_from r rep (c # pre) cs)"

definition replace_all :: "regex \<Rightarrow> string \<Rightarrow> string \<Rightarrow> string" where
  "replace_all r rep s = replace_from r rep [] s"


section \<open>Configuration\<close>

text \<open>
  The process environment and the validated \<open>env\<close> object of \<open>@/lib/env\<close>: each
  variable is absent or a string.
\<close>

record env =
  SUPABASE_SERVICE_ROLE_KEY :: "string option"
  NEXT_PUBLIC_SITE_URL :: "string option"
  HONEYTRAP_EMAILS :: "string option"
  HONEYTRAP_IDS :: "string option"

text \<open>
  \<open>v ? v.split(',').map(e => e.trim()).filter(e => e.length > 0) : []\<close>
  (route.ts, lines 93 to 99).
\<close>

definition parseList :: "string option \<Rightarrow> string list" where
  "parseList v =
     (case v of
        None \<Rightarrow> []
      | Some s \<Rightarrow> if s = [] then [] else filter (\<lambda>e. length e > 0) (map trim (split_char CHR '','' s)))"

definition honeytrapEmails :: "env \<Rightarrow> string list" where
  "honeytrapEmails e = parseList (HONEYTRAP_EMAILS e)"

definition honeytrapIds :: "env \<Rightarrow> string list" where
  "honeytrapIds e = parseList (HONEYTRAP_IDS e)"


section \<open>The helpers of the route\<close>

subsection \<open>stripHtml and detectForwardedEmail (lines 318 to 329)\<close>

text \<open>\<open>/<[^>]+>/\<close> and \<open>/\s+/\<close>.\<close>

definition re_tag :: regex where
  "re_tag = seqs [chr CHR ''<'', Rep1 (Atom (\<lambda>c. c \<noteq> CHR ''>'')), chr CHR ''>'']"

definition re_spaces :: regex where
  "re_spaces = Rep1 ws"

definition stripHtml :: "string \<Rightarrow> string" where
  "stripHtml html = trim (replace_all re_spaces '' '' (replace_all re_tag '' '' html))"

text \<open>\<open>/forwarded message|begin forwarded message/i\<close>.\<close>

definition re_forwarded :: regex where
  "re_forwarded = Alt (lit_i ''forwarded message'') (lit_i ''begin forwarded message'')"

definition detectForwardedEmail :: "string \<Rightarrow> string \<Rightarrow> string \<Rightarrow> bool" where
  "detectForwardedEmail subject bodyText bodyHtml =
     (let subj = toLowerCase subject in
      if startsWith subj ''fwd:'' \<or> includes_str subj ''fw:'' then True
      else (let textHasForward = test re_forwarded bodyText;
                htmlHasForward = test re_forwarded bodyHtml
            in textHasForward \<or> htmlHasForward))"

subsection \<open>parseEmailAddress and extractOriginalSender (lines 333 to 345, 407 to 411)\<close>

text \<open>\<open>[a-zA-Z0-9._%+-]+@[a-zA-Z0-9.-]+\.[a-zA-Z]{2,}\<close>, the address both use.\<close>

definition re_address :: regex where
  "re_address =
     seqs [Rep1 (Atom (\<lambda>c. isAlpha c \<or> isDigit c \<or> c \<in> set ''._%+-'')),
           chr CHR ''@'',
           Rep1 (Atom (\<lambda>c. isAlpha c \<or> isDigit c \<or> c \<in> set ''.-'')),
           chr CHR ''.'',
           Atom isAlpha, Atom isAlpha, Star (Atom isAlpha)]"

definition parseEmailAddress :: "string option \<Rightarrow> string option" where
  "parseEmailAddress input =
     (case input of
        None \<Rightarrow> None
      | Some s \<Rightarrow>
          if s = [] then None
          else (case match (Group 1 re_address) s of
                  Some caps \<Rightarrow> map_of caps 1
                | None \<Rightarrow> None))"

text \<open>
  \<open>/^From:\s*(?:"[^"]*"\s*)?<?([a-zA-Z0-9._%+-]+@[a-zA-Z0-9.-]+\.[a-zA-Z]{2,})>?/i\<close>
\<close>

definition re_sender :: regex where
  "re_sender =
     seqs [Bol False, lit_i ''From:'', Star ws,
           Opt (seqs [chr dquote, Star (Atom (\<lambda>c. c \<noteq> dquote)), chr dquote, Star ws]),
           Opt (chr CHR ''<''),
           Group 1 re_address,
           Opt (chr CHR ''>'')]"

fun firstSender :: "string list \<Rightarrow> string option" where
  "firstSender [] = None"
| "firstSender (line # rest) =
     (case match re_sender line of
        Some caps \<Rightarrow>
          (case map_of caps 1 of
             Some g \<Rightarrow> if g \<noteq> [] then Some g else firstSender rest
           | None \<Rightarrow> firstSender rest)
      | None \<Rightarrow> firstSender rest)"

definition extractOriginalSender :: "string \<Rightarrow> string option" where
  "extractOriginalSender txt = firstSender (take 50 (split_char LF txt))"

subsection \<open>validateAndCleanFromLine (lines 381 to 401)\<close>

definition validateAndCleanFromLine :: "env \<Rightarrow> string \<Rightarrow> string option" where
  "validateAndCleanFromLine e fromLine =
     (let cleaned = trim fromLine in
      if \<not> includes_str cleaned ''@'' \<or> length cleaned \<le> 5 then None
      else (let honeytraps =
                  (case HONEYTRAP_EMAILS e of
                     None \<Rightarrow> []
                   | Some s \<Rightarrow>
                       if s = [] then []
                       else filter (\<lambda>x. length x > 0)
                              (map (\<lambda>x. toLowerCase (trim x)) (split_char CHR '','' s)));
                isHoneytrap = list_ex (\<lambda>email. includes_str (toLowerCase cleaned) email) honeytraps
            in if isHoneytrap then None else Some cleaned))"

subsection \<open>extractOriginalFromLine (lines 350 to 378)\<close>

text \<open>
  \<open>/^[\s>]+/\<close>, the three forward markers
  \<open>/^-+\s*Forwarded message\s*-+/i\<close>, \<open>/^Begin forwarded message:/i\<close>,
  \<open>/^From:\s+.+@.+/i\<close>, and the header \<open>/^From:\s+(.+)$/i\<close>.
\<close>

definition re_quote_prefix :: regex where
  "re_quote_prefix = Seq (Bol False) (Rep1 (Atom (\<lambda>c. isSpace c \<or> c = CHR ''>'')))"

definition forwardMarkers :: "regex list" where
  "forwardMarkers =
     [seqs [Bol False, Rep1 (chr CHR ''-''), Star ws, lit_i ''Forwarded message'', Star ws,
            Rep1 (chr CHR ''-'')],
      seqs [Bol False, lit_i ''Begin forwarded message:''],
      seqs [Bol False, lit_i ''From:'', Rep1 ws, Rep1 dot, chr_i CHR ''@'', Rep1 dot]]"

definition isForwardBoundary :: "string \<Rightarrow> bool" where
  "isForwardBoundary line = list_ex (\<lambda>marker. test marker line) forwardMarkers"

definition re_from_header :: regex where
  "re_from_header = seqs [Bol False, lit_i ''From:'', Rep1 ws, Group 1 (Rep1 dot), Eol False]"

text \<open>
  The inner loop over \<open>lines[i .. min(i + 20, length))\<close>: \<open>Some r\<close> when the function
  returns \<open>r\<close> (which is null when the candidate is refused), \<open>None\<close> when the loop ends
  or breaks.  The flag says that \<open>j = i\<close>.
\<close>

fun scanFromHeader :: "env \<Rightarrow> bool \<Rightarrow> string list \<Rightarrow> string option option" where
  "scanFromHeader e first [] = None"
| "scanFromHeader e first (line # rest) =
     (case match re_from_header line of
        Some caps \<Rightarrow>
          (case map_of caps 1 of
             Some g \<Rightarrow> Some (validateAndCleanFromLine e g)
           | None \<Rightarrow> Some None)
      | None \<Rightarrow> if trim line = [] \<and> \<not> first then None else scanFromHeader e False rest)"

text \<open>The outer loop over \<open>i < min(length, 100)\<close>: the bound left, the lines from \<open>i\<close> on.\<close>

fun scanBoundaries :: "env \<Rightarrow> nat \<Rightarrow> string list \<Rightarrow> string option" where
  "scanBoundaries e n [] = None"
| "scanBoundaries e 0 (line # rest) = None"
| "scanBoundaries e (Suc n) (line # rest) =
     (if isForwardBoundary line then
        (case scanFromHeader e True (take 20 (line # rest)) of
           Some r \<Rightarrow> r
         | None \<Rightarrow> scanBoundaries e n rest)
      else scanBoundaries e n rest)"

definition extractOriginalFromLine :: "env \<Rightarrow> string \<Rightarrow> string option" where
  "extractOriginalFromLine e txt =
     scanBoundaries e 100 (map (replace_first re_quote_prefix []) (split_lines txt))"


subsection \<open>Dates (lines 416 to 542)\<close>

text \<open>
  A \<open>Date\<close> is its time value in milliseconds, or \<open>None\<close> for an invalid date (time
  value NaN).  Time values are integers, so the arithmetic of \<open>isValidEmailDate\<close> is
  exact.  The platform's \<open>new Date(string)\<close> and \<open>Date.now()\<close> are parameters (\<open>nd\<close>,
  \<open>now\<close>); one request reads one clock value.
\<close>

type_synonym Date = "int option"

definition isValidEmailDate :: "int \<Rightarrow> Date \<Rightarrow> bool" where
  "isValidEmailDate now date =
     (case date of
        None \<Rightarrow> False
      | Some t \<Rightarrow>
          (let oneYearAgo = now - 365 * 24 * 60 * 60 * 1000;
               oneDayAhead = now + 24 * 60 * 60 * 1000
           in t \<ge> oneYearAgo \<and> t \<le> oneDayAhead))"

text \<open>
  \<open>/\s+at\s+/i\<close>, \<open>/([A-Za-z]+)\s+(\d{1,2}),?\s+(\d{4})/\<close> and
  \<open>/(\d{1,2}):(\d{2})(?::(\d{2}))?\s*(AM|PM)?/i\<close>.
\<close>

definition re_at :: regex where
  "re_at = seqs [Rep1 ws, lit_i ''at'', Rep1 ws]"

definition re_dateOnly :: regex where
  "re_dateOnly =
     seqs [Group 1 (Rep1 (Atom isAlpha)), Rep1 ws, Group 2 (Seq digit (Opt digit)),
           Opt (chr CHR '',''), Rep1 ws, Group 3 (seqs [digit, digit, digit, digit])]"

definition re_time :: regex where
  "re_time =
     seqs [Group 1 (Seq digit (Opt digit)), chr CHR '':'', Group 2 (Seq digit digit),
           Opt (Seq (chr CHR '':'') (Group 3 (Seq digit digit))), Star ws,
           Opt (Group 4 (Alt (lit_i ''AM'') (lit_i ''PM'')))]"

text \<open>The hour and minute of the third strategy (lines 487 to 497).\<close>

definition timeOf :: "string \<Rightarrow> nat \<times> nat" where
  "timeOf dateStr =
     (case match re_time dateStr of
        None \<Rightarrow> (0, 0)
      | Some caps \<Rightarrow>
          (let hours = parseInt (case map_of caps 1 of Some g \<Rightarrow> g | None \<Rightarrow> []);
               minutes = parseInt (case map_of caps 2 of Some g \<Rightarrow> g | None \<Rightarrow> [])
           in (case map_of caps 4 of
                 None \<Rightarrow> (hours, minutes)
               | Some ampm \<Rightarrow>
                   if ampm = [] then (hours, minutes)
                   else (let h1 = (if toUpperCase ampm = ''PM'' \<and> hours \<noteq> 12
                                   then hours + 12 else hours);
                             h2 = (if toUpperCase ampm = ''AM'' \<and> h1 = 12 then 0 else h1)
                         in (h2, minutes)))))"

text \<open>
  The string the third strategy hands to \<open>new Date\<close> (lines 483 to 498), null when the
  text holds no month name, day and year.
\<close>

definition rebuiltDate :: "string \<Rightarrow> string option" where
  "rebuiltDate dateStr =
     (case match re_dateOnly dateStr of
        None \<Rightarrow> None
      | Some caps \<Rightarrow>
          (let month = (case map_of caps 1 of Some g \<Rightarrow> g | None \<Rightarrow> []);
               day = (case map_of caps 2 of Some g \<Rightarrow> g | None \<Rightarrow> []);
               year = (case map_of caps 3 of Some g \<Rightarrow> g | None \<Rightarrow> []);
               hm = timeOf dateStr
           in Some (month @ '' '' @ day @ '', '' @ year @ '' '' @
                    show_nat (fst hm) @ '':'' @ padStart2 (show_nat (snd hm)))))"

definition parseEmailDateString :: "(string \<Rightarrow> Date) \<Rightarrow> string \<Rightarrow> Date option" where
  "parseEmailDateString nd dateStr =
     (if dateStr = [] then None
      else if nd dateStr \<noteq> None then Some (nd dateStr)
      else (let withoutAt = replace_first re_at '' '' dateStr in
            if nd withoutAt \<noteq> None then Some (nd withoutAt)
            else (case rebuiltDate dateStr of
                    None \<Rightarrow> None
                  | Some rebuilt \<Rightarrow> if nd rebuilt \<noteq> None then Some (nd rebuilt) else None)))"

text \<open>
  \<open>/<br\s*\/?>/gi\<close> and \<open>/^(?:Date|Sent):\s*(.+)$/i\<close>; the date string of a header
  line (lines 442 to 444) and the date the line gives (lines 445 to 448), \<open>None\<close> when
  the line is no header or its date is refused.
\<close>

definition re_br :: regex where
  "re_br = seqs [lit_i ''<br'', Star ws, Opt (chr CHR ''/''), chr CHR ''>'']"

definition re_date_header :: regex where
  "re_date_header =
     seqs [Bol False, Alt (lit_i ''Date'') (lit_i ''Sent''), chr CHR '':'', Star ws,
           Group 1 (Rep1 dot), Eol False]"

definition dateStringOfLine :: "string \<Rightarrow> string option" where
  "dateStringOfLine line =
     (case match re_date_header line of
        None \<Rightarrow> None
      | Some caps \<Rightarrow>
          (case map_of caps 1 of
             None \<Rightarrow> None
           | Some g \<Rightarrow> if g = [] then None else Some (trim g)))"

definition dateOfLine :: "(string \<Rightarrow> Date) \<Rightarrow> int \<Rightarrow> string \<Rightarrow> Date option" where
  "dateOfLine nd now line =
     (case dateStringOfLine line of
        None \<Rightarrow> None
      | Some dateStr \<Rightarrow>
          (case parseEmailDateString nd dateStr of
             None \<Rightarrow> None
           | Some parsed \<Rightarrow> if isValidEmailDate now parsed then Some parsed else None))"

text \<open>The inner loop; \<open>k\<close> is \<open>j - i\<close>, and the loop breaks on an empty line with \<open>j > i + 1\<close>.\<close>

fun scanDateHeader :: "(string \<Rightarrow> Date) \<Rightarrow> int \<Rightarrow> nat \<Rightarrow> string list \<Rightarrow> Date option" where
  "scanDateHeader nd now k [] = None"
| "scanDateHeader nd now k (line # rest) =
     (case dateOfLine nd now line of
        Some d \<Rightarrow> Some d
      | None \<Rightarrow> if trim line = [] \<and> k > 1 then None else scanDateHeader nd now (Suc k) rest)"

fun scanDateBoundaries :: "(string \<Rightarrow> Date) \<Rightarrow> int \<Rightarrow> nat \<Rightarrow> string list \<Rightarrow> Date option" where
  "scanDateBoundaries nd now n [] = None"
| "scanDateBoundaries nd now 0 (line # rest) = None"
| "scanDateBoundaries nd now (Suc n) (line # rest) =
     (if isForwardBoundary line then
        (case scanDateHeader nd now 0 (take 20 (line # rest)) of
           Some d \<Rightarrow> Some d
         | None \<Rightarrow> scanDateBoundaries nd now n rest)
      else scanDateBoundaries nd now n rest)"

text \<open>The lines the date search runs over (lines 418 to 426).\<close>

definition dateLines :: "string \<Rightarrow> string list" where
  "dateLines txt =
     (let normalized =
            replace_all (lit ''&nbsp;'') '' ''
              (replace_all (lit ''&amp;'') ''&''
                (replace_all (lit ''&gt;'') ''>''
                  (replace_all (lit ''&lt;'') ''<''
                    (replace_all re_tag '' ''
                      (replace_all re_br [LF] txt)))))
      in map (\<lambda>line. trim (replace_first re_quote_prefix [] line)) (split_lines normalized))"

definition extractOriginalDateFromBody :: "(string \<Rightarrow> Date) \<Rightarrow> int \<Rightarrow> string \<Rightarrow> Date option" where
  "extractOriginalDateFromBody nd now txt = scanDateBoundaries nd now 100 (dateLines txt)"

definition extractOriginalEmailDate ::
  "(string \<Rightarrow> Date) \<Rightarrow> int \<Rightarrow> string \<Rightarrow> string \<Rightarrow> string \<Rightarrow> Date option" where
  "extractOriginalEmailDate nd now messageHeaders bodyText bodyHtml =
     (case extractOriginalDateFromBody nd now bodyText of
        Some d \<Rightarrow> Some d
      | None \<Rightarrow>
          if bodyHtml \<noteq> [] then
            (case extractOriginalDateFromBody nd now bodyHtml of
               Some d \<Rightarrow> Some d
             | None \<Rightarrow> None)
          else None)"


section \<open>The handler POST (lines 9 to 315)\<close>

text \<open>
  The handler is followed statement by statement; its calls of \<open>console.log\<close>,
  \<open>console.warn\<close> and \<open>console.error\<close> (and the link statistics of lines 134 to 142,
  which are only logged) leave no trace in the model.
\<close>

subsection \<open>Redaction (lines 105 to 121)\<close>

text \<open>
  \<open>s.replace(/[.*+?^${}()|[\]\\]/g, '\\$&')\<close> puts a backslash before each syntax
  character.  \<open>new RegExp(escaped, 'gi')\<close> is read by \<open>RegExp_gi\<close>, the pattern
  grammar on such strings: a backslash makes the next character a literal, every other
  character stands for itself (no pattern ends in a single backslash).
\<close>

definition escapeRegExp :: "string \<Rightarrow> string" where
  "escapeRegExp s =
     concat (map (\<lambda>c. if c \<in> set ''.*+?^${}()|[]'' \<or> c = backslash then [backslash, c] else [c]) s)"

fun RegExp_gi :: "string \<Rightarrow> regex" where
  "RegExp_gi [] = Eps"
| "RegExp_gi [c] = Seq (chr_i c) Eps"
| "RegExp_gi (c # d # cs) =
     (if c = backslash then Seq (chr_i d) (RegExp_gi cs) else Seq (chr_i c) (RegExp_gi (d # cs)))"

definition redactHoneytrap :: "string list \<Rightarrow> string list \<Rightarrow> string \<Rightarrow> string" where
  "redactHoneytrap emails ids txt =
     (let result1 = foldl (\<lambda>result email.
                       replace_all (RegExp_gi (escapeRegExp email)) ''*******@*******.com'' result)
                     txt emails
      in foldl (\<lambda>result ident.
                  replace_all (RegExp_gi (escapeRegExp ident)) ''########'' result)
           result1 ids)"


subsection \<open>The request and its decoding (lines 15 to 56)\<close>

text \<open>
  An awaited call returns or throws.  The request gives its content type and what each
  reader of the body yields: the entries of \<open>new URLSearchParams(await req.text())\<close>,
  the entries of \<open>await req.formData()\<close>, the value of \<open>await req.json()\<close>.  The
  platform's \<open>formData()\<close> and \<open>json()\<close> reject a body they cannot parse.
\<close>

datatype 'a outcome = Returns 'a | Throws

datatype formValue = FormString string | FormFile

text \<open>
  A JSON number is kept as whether it is truthy (neither zero nor NaN) and as its
  rendering by \<open>String\<close>; an object as its own properties.
\<close>

datatype json =
    JNull
  | JBool bool
  | JNum bool string
  | JStr string
  | JArr "json list"
  | JObj "(string \<times> json) list"

record request =
  contentType :: "string option"
  urlParams :: "(string \<times> string) list outcome"
  formData :: "(string \<times> formValue) list outcome"
  jsonBody :: "json outcome"

record fields =
  sender :: string
  subject :: string
  bodyPlain :: string
  bodyHtml :: string
  messageHeaders :: string

text \<open>\<open>params.get(k1) || params.get(k2) || ... || ""\<close>\<close>

fun pickParam :: "(string \<times> string) list \<Rightarrow> string list \<Rightarrow> string" where
  "pickParam ps [] = []"
| "pickParam ps (k # ks) =
     (case map_of ps k of
        Some v \<Rightarrow> if v \<noteq> [] then v else pickParam ps ks
      | None \<Rightarrow> pickParam ps ks)"

text \<open>\<open>String(form.get(k1) || form.get(k2) || ... || "")\<close>: a file entry is truthy.\<close>

fun pickForm :: "(string \<times> formValue) list \<Rightarrow> string list \<Rightarrow> string" where
  "pickForm ps [] = []"
| "pickForm ps (k # ks) =
     (case map_of ps k of
        Some (FormString v) \<Rightarrow> if v \<noteq> [] then v else pickForm ps ks
      | Some FormFile \<Rightarrow> ''[object File]''
      | None \<Rightarrow> pickForm ps ks)"

text \<open>
  \<open>String(v)\<close> on a parsed JSON value.  An array joins its elements with commas (null
  as the empty string).  An object answers \<open>[object Object]\<close>, unless it has an own
  property \<open>toString\<close>: that value is no function, and the conversion throws.
\<close>

fun joinOutcomes :: "string outcome list \<Rightarrow> string outcome" where
  "joinOutcomes [] = Returns []"
| "joinOutcomes [x] = x"
| "joinOutcomes (x # y # ys) =
     (case x of
        Throws \<Rightarrow> Throws
      | Returns a \<Rightarrow>
          (case joinOutcomes (y # ys) of
             Throws \<Rightarrow> Throws
           | Returns b \<Rightarrow> Returns (a @ '','' @ b)))"

fun js_String :: "json \<Rightarrow> string outcome" where
  "js_String JNull = Returns ''null''"
| "js_String (JBool b) = Returns (if b then ''true'' else ''false'')"
| "js_String (JNum nz s) = Returns s"
| "js_String (JStr s) = Returns s"
| "js_String (JArr xs) =
     joinOutcomes (map (\<lambda>x. if x = JNull then Returns [] else js_String x) xs)"
| "js_String (JObj kvs) =
     (if map_of kvs ''toString'' \<noteq> None then Throws else Returns ''[object Object]'')"

definition js_truthy :: "json \<Rightarrow> bool" where
  "js_truthy v =
     (case v of
        JNull \<Rightarrow> False
      | JBool b \<Rightarrow> b
      | JNum nz s \<Rightarrow> nz
      | JStr s \<Rightarrow> s \<noteq> []
      | JArr xs \<Rightarrow> True
      | JObj kvs \<Rightarrow> True)"

text \<open>\<open>json?.k\<close>: only an object has one of the keys the route asks for.\<close>

definition js_get :: "json \<Rightarrow> string \<Rightarrow> json option" where
  "js_get v k = (case v of JObj kvs \<Rightarrow> map_of kvs k | _ \<Rightarrow> None)"

text \<open>\<open>String(json?.k1 || json?.k2 || ... || "")\<close>\<close>

fun pickJson :: "json \<Rightarrow> string list \<Rightarrow> string outcome" where
  "pickJson v [] = Returns []"
| "pickJson v (k # ks) =
     (case js_get v k of
        Some x \<Rightarrow> if js_truthy x then js_String x else pickJson v ks
      | None \<Rightarrow> pickJson v ks)"

definition decodeParams :: "(string \<times> string) list \<Rightarrow> fields" where
  "decodeParams ps =
     \<lparr> sender = pickParam ps [''sender'', ''from'', ''From''],
       subject = pickParam ps [''subject'', ''Subject''],
       bodyPlain = pickParam ps [''body-plain'', ''stripped-text'', ''text''],
       bodyHtml = pickParam ps [''body-html'', ''stripped-html'', ''html''],
       messageHeaders = pickParam ps [''message-headers''] \<rparr>"

definition decodeForm :: "(string \<times> formValue) list \<Rightarrow> fields" where
  "decodeForm ps =
     \<lparr> sender = pickForm ps [''sender'', ''from'', ''From''],
       subject = pickForm ps [''subject'', ''Subject''],
       bodyPlain = pickForm ps [''body-plain'', ''stripped-text'', ''text''],
       bodyHtml = pickForm ps [''body-html'', ''stripped-html'', ''html''],
       messageHeaders = pickForm ps [''message-headers''] \<rparr>"

definition decodeJson :: "json \<Rightarrow> fields outcome" where
  "decodeJson v =
     (case pickJson v [''sender'', ''from'', ''From''] of
        Throws \<Rightarrow> Throws
      | Returns s \<Rightarrow>
     (case pickJson v [''subject'', ''Subject''] of
        Throws \<Rightarrow> Throws
      | Returns su \<Rightarrow>
     (case pickJson v [''body-plain'', ''stripped-text'', ''text''] of
        Throws \<Rightarrow> Throws
      | Returns bp \<Rightarrow>
     (case pickJson v [''body-html'', ''stripped-html'', ''html''] of
        Throws \<Rightarrow> Throws
      | Returns bh \<Rightarrow>
     (case pickJson v [''message-headers''] of
        Throws \<Rightarrow> Throws
      | Returns mh \<Rightarrow>
          Returns \<lparr> sender = s, subject = su, bodyPlain = bp, bodyHtml = bh,
                    messageHeaders = mh \<rparr>)))))"

definition decode :: "request \<Rightarrow> fields outcome" where
  "decode req =
     (let ct = (case contentType req of Some c \<Rightarrow> c | None \<Rightarrow> []) in
      if includes_str ct ''application/x-www-form-urlencoded'' then
        (case urlParams req of Throws \<Rightarrow> Throws | Returns ps \<Rightarrow> Returns (decodeParams ps))
      else if includes_str ct ''multipart/form-data'' then
        (case formData req of Throws \<Rightarrow> Throws | Returns ps \<Rightarrow> Returns (decodeForm ps))
      else if includes_str ct ''application/json'' then
        decodeJson (case jsonBody req of Throws \<Rightarrow> JObj [] | Returns v \<Rightarrow> v)
      else
        (case urlParams req of Throws \<Rightarrow> Throws | Returns ps \<Rightarrow> Returns (decodeParams ps)))"


subsection \<open>From the decoded fields to the submission (lines 59 to 204)\<close>

text \<open>
  The collaborators the route imports or reaches over HTTP, as parameters:
  \<open>cleanTextForAI\<close> and \<open>sanitizeEmailHtml\<close> (functions from text to text),
  \<open>new Date\<close> and \<open>Date.now\<close>, the token \<open>randomBytes(32).toString("base64url")\<close>,
  the awaited \<open>ingestTextSubmission\<close> and \<open>triggerPipelines\<close>, which return or
  throw, and \<open>fetch\<close>, whose promise for a URL is fulfilled or rejected.
\<close>

record submission =
  textField :: string
  rawText :: string
  senderId :: "string option"
  messageType :: string
  imageUrlPlaceholder :: string
  emailSubject :: "string option"
  emailBody :: "string option"
  emailBodyOriginal :: "string option"
  emailFrom :: "string option"
  forwarderEmail :: "string option"
  submissionToken :: string
  emailSentAt :: "Date option"

record ingestResult =
  ok :: bool
  id' :: "string option"
  error :: "string option"
  isFundraising :: "bool option"
  landingUrl :: "string option"

record collab =
  cleanTextForAI :: "string \<Rightarrow> string"
  sanitizeEmailHtml :: "string \<Rightarrow> string"
  newDate :: "string \<Rightarrow> Date"
  dateNow :: int
  randomToken :: string
  ingestTextSubmission :: "submission \<Rightarrow> ingestResult outcome"
  triggerPipelines :: "string \<Rightarrow> unit outcome"
  fetch :: "string \<Rightarrow> unit outcome"

text \<open>\<open>x || null\<close>\<close>

definition orNull :: "string option \<Rightarrow> string option" where
  "orNull x = (if truthy x then x else None)"

text \<open>Lines 67 and 70: the text to classify, and whether the message is a forward.\<close>

definition rawText0 :: "fields \<Rightarrow> string" where
  "rawText0 f = or_str (bodyPlain f) (stripHtml (bodyHtml f))"

definition isForwarded :: "fields \<Rightarrow> bool" where
  "isForwarded f = detectForwardedEmail (subject f) (rawText0 f) (bodyHtml f)"

text \<open>Lines 74 to 84: the original From line, with the envelope fallback.\<close>

definition originalFromLine :: "env \<Rightarrow> fields \<Rightarrow> string option" where
  "originalFromLine e f =
     (let o1 = extractOriginalFromLine e (rawText0 f);
          o2 = (if \<not> truthy o1 \<and> bodyHtml f \<noteq> []
                then extractOriginalFromLine e (stripHtml (bodyHtml f)) else o1);
          o3 = (if \<not> truthy o2 \<and> sender f \<noteq> [] \<and> \<not> isForwarded f
                then Some (sender f) else o2)
      in o3)"

text \<open>
  Lines 88 to 90 and 149 to 151: the separator line is removed.  The four patterns
  share \<open>^[\s>]*-+\s*Forwarded message\s*-+\s*\<close> (flags \<open>i\<close> and \<open>m\<close>) and end in
  \<open>(?:\r?\n)+\<close>, \<open>$\<close>, \<open>(?:<br\s*\/?\s*>|\r?\n)+\<close> and \<open>(?:<br\s*\/?\s*>)?$\<close>.
\<close>

definition sepPrefix :: "regex list" where
  "sepPrefix =
     [Bol True, Star (Atom (\<lambda>c. isSpace c \<or> c = CHR ''>'')), Rep1 (chr CHR ''-''), Star ws,
      lit_i ''Forwarded message'', Star ws, Rep1 (chr CHR ''-''), Star ws]"

definition re_newline :: regex where
  "re_newline = Seq (Opt (chr CR)) (chr LF)"

definition stripSeparatorText :: "string \<Rightarrow> string" where
  "stripSeparatorText t =
     replace_all (seqs (sepPrefix @ [Eol True])) []
       (replace_first (seqs (sepPrefix @ [Rep1 re_newline])) [] t)"

definition stripSeparatorHtml :: "string \<Rightarrow> string" where
  "stripSeparatorHtml h =
     replace_all
       (seqs (sepPrefix @
          [Opt (seqs [lit_i ''<br'', Star ws, Opt (chr CHR ''/''), Star ws, chr CHR ''>'']),
           Eol True])) []
       (replace_first
          (seqs (sepPrefix @
             [Rep1 (Alt (seqs [lit_i ''<br'', Star ws, Opt (chr CHR ''/''), Star ws, chr CHR ''>''])
                        re_newline)])) [] h)"

text \<open>Lines 88 to 128: the text after separator removal and redaction; the subject.\<close>

definition redactedText :: "env \<Rightarrow> fields \<Rightarrow> string" where
  "redactedText e f =
     redactHoneytrap (honeytrapEmails e) (honeytrapIds e) (stripSeparatorText (rawText0 f))"

definition redactedSubject :: "env \<Rightarrow> fields \<Rightarrow> string" where
  "redactedSubject e f = redactHoneytrap (honeytrapEmails e) (honeytrapIds e) (subject f)"

text \<open>Lines 145 to 153.\<close>

definition sanitizedHtml :: "env \<Rightarrow> collab \<Rightarrow> fields \<Rightarrow> string option" where
  "sanitizedHtml e c f =
     (let s0 = (if bodyHtml f \<noteq> [] then Some (sanitizeEmailHtml c (bodyHtml f)) else None) in
      case s0 of
        None \<Rightarrow> None
      | Some h \<Rightarrow>
          if h \<noteq> [] then
            Some (redactHoneytrap (honeytrapEmails e) (honeytrapIds e) (stripSeparatorHtml h))
          else Some h)"

text \<open>Lines 156 to 160.\<close>

definition detectedSender :: "env \<Rightarrow> fields \<Rightarrow> string" where
  "detectedSender e f =
     (case or_opt (parseEmailAddress (orNull (originalFromLine e f)))
             (or_opt (extractOriginalSender (redactedText e f))
                (parseEmailAddress (Some (sender f)))) of
        Some a \<Rightarrow> if a \<noteq> [] then a else sender f
      | None \<Rightarrow> sender f)"

text \<open>Lines 175 to 187.\<close>

definition forwarderEmailOf :: "env \<Rightarrow> fields \<Rightarrow> string option" where
  "forwarderEmailOf e f =
     (if isForwarded f then
        (let parsedEnvelope = or_opt (parseEmailAddress (Some (sender f))) (orNull (Some (sender f))) in
         case parsedEnvelope of
           None \<Rightarrow> None
         | Some pe \<Rightarrow>
             if pe = [] then None
             else (let isHoneytrapForwarder =
                         list_ex (\<lambda>email. includes_str (toLowerCase pe) (toLowerCase email))
                           (honeytrapEmails e)
                   in if \<not> isHoneytrapForwarder then Some pe else None))
      else None)"

text \<open>Lines 191 to 204: the record handed to \<open>ingestTextSubmission\<close>.\<close>

definition submissionOf :: "env \<Rightarrow> collab \<Rightarrow> fields \<Rightarrow> submission" where
  "submissionOf e c f =
     \<lparr> textField = cleanTextForAI c (redactedText e f),
       rawText = redactedText e f,
       senderId = orNull (Some (detectedSender e f)),
       messageType = ''email'',
       imageUrlPlaceholder = ''email://no-image'',
       emailSubject = orNull (Some (redactedSubject e f)),
       emailBody = orNull (sanitizedHtml e c f),
       emailBodyOriginal = orNull (Some (bodyHtml f)),
       emailFrom = orNull (originalFromLine e f),
       forwarderEmail = forwarderEmailOf e f,
       submissionToken = randomToken c,
       emailSentAt =
         extractOriginalEmailDate (newDate c) (dateNow c) (messageHeaders f) (redactedText e f)
           (bodyHtml f) \<rparr>"

subsection \<open>After ingestion (lines 218 to 310), and the whole handler\<close>

datatype body = OkId "string option" | OkDuplicate "string option" | ErrorBody string

datatype response = Response nat body

text \<open>
  The calls the handler makes, and how it makes each: \<open>Await\<close> when the handler
  awaits the call, so that it goes on (and answers) only after the call has settled
  and an exception of the call is thrown in the handler; \<open>Detach\<close> when the call is
  started with \<open>void\<close> and the handler goes on at once.
\<close>

datatype call =
    Ingest submission
  | TriggerPipelines string
  | ScreenshotFetch string string string
  | NoticeFetch string string

datatype effect = Await call | Detach call

definition internal_error :: response where
  "internal_error = Response 500 (ErrorBody ''internal_error'')"

definition siteBase :: "env \<Rightarrow> string" where
  "siteBase e = (case NEXT_PUBLIC_SITE_URL e of Some b \<Rightarrow> b | None \<Rightarrow> [])"

text \<open>
  \<open>p.then(...).catch(...)\<close> (lines 294 to 306): a rejection is caught and logged, so
  the chain is fulfilled either way.
\<close>

definition caught :: "unit outcome \<Rightarrow> unit outcome" where
  "caught p = (case p of Returns u \<Rightarrow> Returns u | Throws \<Rightarrow> Returns ())"

text \<open>
  The \<open>else\<close> branch (lines 275 to 308): the notice is fetched and the caught chain
  awaited; then the handler answers (line 310).
\<close>

definition nonFundraising ::
  "env \<Rightarrow> collab \<Rightarrow> fields \<Rightarrow> ingestResult \<Rightarrow> response \<times> effect list" where
  "nonFundraising e c f result =
     (case id' result of
        None \<Rightarrow> (Response 200 (OkId (id' result)), [])
      | Some i \<Rightarrow>
          if i \<noteq> [] \<and> isForwarded f \<and> sender f \<noteq> [] then
            (let url = siteBase e @ ''/api/send-non-fundraising-notice'' in
             case caught (fetch c url) of
               Throws \<Rightarrow> (internal_error, [Await (NoticeFetch url i)])
             | Returns u \<Rightarrow> (Response 200 (OkId (id' result)), [Await (NoticeFetch url i)]))
          else (Response 200 (OkId (id' result)), []))"

text \<open>
  The fundraising branch (lines 233 to 274): \<open>triggerPipelines\<close> is awaited, so its
  exception reaches the handler's \<open>catch\<close>; the screenshot fetch is started with
  \<open>void\<close>; then the handler answers (line 310).
\<close>

definition fundraising :: "env \<Rightarrow> collab \<Rightarrow> ingestResult \<Rightarrow> string \<Rightarrow> response \<times> effect list" where
  "fundraising e c result i =
     (case triggerPipelines c i of
        Throws \<Rightarrow> (internal_error, [Await (TriggerPipelines i)])
      | Returns u \<Rightarrow>
          (Response 200 (OkId (id' result)),
           Await (TriggerPipelines i) #
             (case landingUrl result of
                None \<Rightarrow> []
              | Some url \<Rightarrow>
                  if url \<noteq> []
                  then [Detach (ScreenshotFetch (siteBase e @ ''/api/screenshot-actblue'') i url)]
                  else [])))"

definition afterIngest :: "env \<Rightarrow> collab \<Rightarrow> fields \<Rightarrow> ingestResult \<Rightarrow> response \<times> effect list" where
  "afterIngest e c f result =
     (if \<not> ok result \<and> error result = Some ''duplicate'' then
        (Response 200 (OkDuplicate (id' result)), [])
      else if \<not> ok result \<and> \<not> truthy (id' result) then
        (Response 500 (ErrorBody ''ingest_failed''), [])
      else
        (case id' result of
           None \<Rightarrow> nonFundraising e c f result
         | Some i \<Rightarrow>
             if isFundraising result = Some True \<and> i \<noteq> [] then fundraising e c result i
             else nonFundraising e c f result))"


text \<open>The handler: the response, and the collaborator calls it made, in order.\<close>

definition POST :: "env \<Rightarrow> collab \<Rightarrow> request \<Rightarrow> response \<times> effect list" where
  "POST e c req =
     (case decode req of
        Throws \<Rightarrow> (internal_error, [])
      | Returns f \<Rightarrow>
          if \<not> truthy (SUPABASE_SERVICE_ROLE_KEY e) then
            (Response 400 (ErrorBody ''service_key_missing''), [])
          else
            (let sub = submissionOf e c f in
             case ingestTextSubmission c sub of
               Throws \<Rightarrow> (internal_error, [Await (Ingest sub)])
             | Returns result \<Rightarrow>
                 (fst (afterIngest e c f result),
                  Await (Ingest sub) # snd (afterIngest e c f result))))"


section \<open>Example requests\<close>

text \<open>Concrete configurations and messages, used to run the model.\<close>

definition env_decoy :: env where
  "env_decoy =
     \<lparr> SUPABASE_SERVICE_ROLE_KEY = Some ''service-key'', NEXT_PUBLIC_SITE_URL = Some ''https://site'',
       HONEYTRAP_EMAILS = Some ''sender@decoy.org, mike@example.com'', HONEYTRAP_IDS = Some ''TRK-42'' \<rparr>"

definition msg_plain_decoy :: fields where
  "msg_plain_decoy =
     \<lparr> sender = ''sender@decoy.org'', subject = ''hello'', bodyPlain = ''hi'', bodyHtml = [],
       messageHeaders = [] \<rparr>"

definition msg_forward_jane :: fields where
  "msg_forward_jane =
     \<lparr> sender = ''bob@example.com'', subject = ''Fwd: Help us win'',
       bodyPlain = ''---------- Forwarded message ---------'' @ [LF] @
                   ''From: Jane Doe <jane@example.org>'' @ [LF] @
                   ''Date: Mon, Jan 5, 2026 at 3:00 PM'' @ [LF] @ ''Please chip in'',
       bodyHtml = [], messageHeaders = [] \<rparr>"

definition msg_forward_bare :: fields where
  "msg_forward_bare =
     \<lparr> sender = ''bob@example.com'', subject = ''Fwd: hello'', bodyPlain = ''hi'', bodyHtml = [],
       messageHeaders = [] \<rparr>"

definition msg_plain_bob :: fields where
  "msg_plain_bob =
     \<lparr> sender = ''bob@example.com'', subject = ''hello'', bodyPlain = ''hi'', bodyHtml = [],
       messageHeaders = [] \<rparr>"

definition msg_outlook_quote :: fields where
  "msg_outlook_quote =
     \<lparr> sender = ''bob@example.com'', subject = ''Hello'',
       bodyPlain = ''From: Jane <jane@example.org>'' @ [LF] @ ''hi'', bodyHtml = [],
       messageHeaders = [] \<rparr>"

definition result_plain :: ingestResult where
  "result_plain =
     \<lparr> ok = True, id' = Some ''case-1'', error = None, isFundraising = Some False,
       landingUrl = None \<rparr>"

definition result_duplicate :: ingestResult where
  "result_duplicate =
     \<lparr> ok = False, id' = Some ''case-0'', error = Some ''duplicate'', isFundraising = Some True,
       landingUrl = Some ''https://secure.actblue.com/donate/x'' \<rparr>"

definition result_failed_with_id :: ingestResult where
  "result_failed_with_id =
     \<lparr> ok = False, id' = Some ''case-2'', error = Some ''insert_failed'', isFundraising = Some True,
       landingUrl = Some ''https://secure.actblue.com/donate/x'' \<rparr>"

text \<open>
  Collaborators that answer the ingestion with a given result: with every later call
  succeeding, and with every later call failing.
\<close>

definition collab_of :: "ingestResult \<Rightarrow> collab" where
  "collab_of r =
     \<lparr> cleanTextForAI = (\<lambda>s. s), sanitizeEmailHtml = (\<lambda>s. s), newDate = (\<lambda>s. None),
       dateNow = 1793664000000, randomToken = ''token'',
       ingestTextSubmission = (\<lambda>s. Returns r), triggerPipelines = (\<lambda>i. Returns ()),
       fetch = (\<lambda>u. Returns ()) \<rparr>"

definition collab_failing :: "ingestResult \<Rightarrow> collab" where
  "collab_failing r =
     \<lparr> cleanTextForAI = (\<lambda>s. s), sanitizeEmailHtml = (\<lambda>s. s), newDate = (\<lambda>s. None),
       dateNow = 1793664000000, randomToken = ''token'',
       ingestTextSubmission = (\<lambda>s. Returns r), triggerPipelines = (\<lambda>i. Throws),
       fetch = (\<lambda>u. Throws) \<rparr>"

definition result_failed_plain :: ingestResult where
  "result_failed_plain =
     \<lparr> ok = False, id' = Some ''case-3'', error = Some ''verdict_failed'', isFundraising = Some False,
       landingUrl = None \<rparr>"

definition msg_forward_no_envelope :: fields where
  "msg_forward_no_envelope =
     \<lparr> sender = [], subject = ''Fwd: hello'', bodyPlain = ''hi'', bodyHtml = [],
       messageHeaders = [] \<rparr>"

definition msg_html_quote :: fields where
  "msg_html_quote =
     \<lparr> sender = ''bob@example.com'', subject = ''hello'', bodyPlain = ''hi'',
       bodyHtml = ''<p>From: Jane <b>jane@example.org</b></p>'', messageHeaders = [] \<rparr>"

definition request_of :: "fields \<Rightarrow> request" where
  "request_of f =
     \<lparr> contentType = Some ''application/x-www-form-urlencoded'',
       urlParams = Returns [(''sender'', sender f), (''subject'', subject f),
                            (''body-plain'', bodyPlain f), (''body-html'', bodyHtml f),
                            (''message-headers'', messageHeaders f)],
       formData = Throws, jsonBody = Throws \<rparr>"

definition request_bad_multipart :: request where
  "request_bad_multipart =
     \<lparr> contentType = Some ''multipart/form-data'', urlParams = Returns [], formData = Throws,
       jsonBody = Throws \<rparr>"

definition request_bad_json :: request where
  "request_bad_json =
     \<lparr> contentType = Some ''application/json'', urlParams = Returns [], formData = Throws,
       jsonBody = Throws \<rparr>"

definition request_json_object_field :: request where
  "request_json_object_field =
     \<lparr> contentType = Some ''application/json'', urlParams = Returns [], formData = Throws,
       jsonBody = Returns (JObj [(''sender'', JObj [(''toString'', JNum True ''1'')])]) \<rparr>"


definition msg_evasive :: fields where
  "msg_evasive =
     \<lparr> sender = ''pac@example.net'', subject = ''mike@example.comike@example.com'',
       bodyPlain = ''chip in'', bodyHtml = [], messageHeaders = [] \<rparr>"

text \<open>
  A clock (2026-11-03T00:00:00Z) and two date parsers for the examples: the first knows
  one date two years back, the second one date ten months back.
\<close>

definition now_example :: int where
  "now_example = 1793664000000"

definition newDate_old :: "string \<Rightarrow> Date" where
  "newDate_old s = (if s = ''Mon, 4 Nov 2024 10:00:00 +0000'' then Some 1730714400000 else None)"

definition newDate_recent :: "string \<Rightarrow> Date" where
  "newDate_recent s = (if s = ''Mon, Jan 5, 2026 3:00 PM'' then Some 1767625200000 else None)"

definition newDate_rebuilt :: "string \<Rightarrow> Date" where
  "newDate_rebuilt s = (if s = ''Dec 27, 2025 20:33'' then Some 1766867580000 else None)"

definition body_two_years_old :: string where
  "body_two_years_old =
     ''---------- Forwarded message ---------'' @ [LF] @
     ''From: Jane Doe <jane@example.org>'' @ [LF] @
     ''Date: Mon, 4 Nov 2024 10:00:00 +0000'' @ [LF] @ ''Please chip in''"



section \<open>Properties of the From-line recovery\<close>

lemma startsWith_refl: "startsWith s s"
  by (simp add: startsWith_def)

lemma includes_str_refl: "includes_str s s"
  by (cases s) (simp_all add: startsWith_refl)

lemma length_toLowerCase: "length (toLowerCase s) = length s"
  by (simp add: toLowerCase_def)

lemma toLowerCase_Nil_iff: "toLowerCase s = [] \<longleftrightarrow> s = []"
  by (simp add: toLowerCase_def)

lemma honeytraps_lowered:
  "filter (\<lambda>x. x \<noteq> []) (map (\<lambda>x. toLowerCase (trim x)) xs) =
   map toLowerCase (filter (\<lambda>x. x \<noteq> []) (map trim xs))"
  by (induction xs) (simp_all add: toLowerCase_Nil_iff)

lemma validate_sound:
  assumes "validateAndCleanFromLine e g = Some r"
  shows "\<forall>h \<in> set (honeytrapEmails e). \<not> includes_str (toLowerCase r) (toLowerCase h)"
    and "5 < length r"
proof -
  let ?hs = "(case HONEYTRAP_EMAILS e of
               None \<Rightarrow> []
             | Some s \<Rightarrow>
                 if s = [] then []
                 else filter (\<lambda>x. length x > 0)
                        (map (\<lambda>x. toLowerCase (trim x)) (split_char CHR '','' s)))"
  have hs: "?hs = map toLowerCase (honeytrapEmails e)"
    by (simp add: honeytrapEmails_def parseList_def honeytraps_lowered split: option.splits)
  from assms have r: "r = trim g" and len: "5 < length (trim g)"
    and no: "\<not> list_ex (\<lambda>email. includes_str (toLowerCase (trim g)) email) ?hs"
    by (auto simp: validateAndCleanFromLine_def Let_def split: if_splits)
  from no hs show "\<forall>h \<in> set (honeytrapEmails e). \<not> includes_str (toLowerCase r) (toLowerCase h)"
    by (simp add: r list_ex_iff)
  from len show "5 < length r" by (simp add: r)
qed

lemma scanFromHeader_validated:
  "scanFromHeader e b ls = Some (Some r) \<Longrightarrow> \<exists>g. validateAndCleanFromLine e g = Some r"
  by (induction ls arbitrary: b) (auto split: option.splits if_splits)

lemma scanBoundaries_validated:
  "scanBoundaries e n ls = Some r \<Longrightarrow> \<exists>g. validateAndCleanFromLine e g = Some r"
proof (induction e n ls rule: scanBoundaries.induct)
  case (3 e n line rest)
  show ?case
  proof (cases "isForwardBoundary line")
    case True
    show ?thesis
    proof (cases "scanFromHeader e True (take 20 (line # rest))")
      case None
      with True 3 show ?thesis by simp
    next
      case (Some x)
      with True 3 have x: "x = Some r" by simp
      from Some [unfolded x] show ?thesis by (rule scanFromHeader_validated)
    qed
  next
    case False
    with 3 show ?thesis by simp
  qed
qed simp_all

lemma extract_validated:
  "extractOriginalFromLine e t = Some r \<Longrightarrow> \<exists>g. validateAndCleanFromLine e g = Some r"
  unfolding extractOriginalFromLine_def by (rule scanBoundaries_validated)

lemma extract_truthy: "extractOriginalFromLine e t = Some r \<Longrightarrow> truthy (Some r)"
proof -
  assume "extractOriginalFromLine e t = Some r"
  then obtain g where "validateAndCleanFromLine e g = Some r"
    by (blast dest: extract_validated)
  then have "5 < length r" by (rule validate_sound)
  then show ?thesis by (auto simp: truthy_def)
qed

section \<open>Properties of redaction\<close>

lemma lit_i_Cons: "lit_i (c # cs) = Seq (chr_i c) (lit_i cs)"
  by (simp add: lit_i_def)

lemma lit_i_Nil: "lit_i [] = Eps"
  by (simp add: lit_i_def)

lemma RegExp_gi_escape: "RegExp_gi (escapeRegExp s) = lit_i s"
proof (induction s)
  case Nil
  show ?case by (simp add: escapeRegExp_def lit_i_Nil)
next
  case (Cons c cs)
  have step: "escapeRegExp (c # cs) =
      (if c \<in> set ''.*+?^${}()|[]'' \<or> c = backslash then [backslash, c] else [c]) @ escapeRegExp cs"
    by (simp add: escapeRegExp_def)
  show ?case
  proof (cases "c \<in> set ''.*+?^${}()|[]'' \<or> c = backslash")
    case True
    with step have "escapeRegExp (c # cs) = backslash # c # escapeRegExp cs" by simp
    with Cons show ?thesis by (simp add: lit_i_Cons)
  next
    case False
    with step have e: "escapeRegExp (c # cs) = c # escapeRegExp cs" by simp
    from False have nb: "c \<noteq> backslash" by simp
    show ?thesis
    proof (cases "escapeRegExp cs")
      case Nil
      with Cons have "lit_i cs = Eps" by simp
      with e Nil show ?thesis by (simp add: lit_i_Cons)
    next
      case (Cons d ds)
      with e nb Cons.IH show ?thesis by (simp add: lit_i_Cons)
    qed
  qed
qed

lemma matcher_lit_i_None:
  "\<not> startsWith (toLowerCase rest) (toLowerCase p) \<Longrightarrow>
   matcher (lit_i p) k (pre, rest, caps) = None"
proof (induction p arbitrary: pre rest)
  case Nil
  then show ?case by (simp add: startsWith_def toLowerCase_def)
next
  case (Cons c cs)
  show ?case
  proof (cases rest)
    case Nil
    then show ?thesis by (simp add: lit_i_Cons chr_i_def)
  next
    case (Cons x xs)
    show ?thesis
    proof (cases "toLowerChar x = toLowerChar c")
      case False
      with Cons show ?thesis by (simp add: lit_i_Cons chr_i_def)
    next
      case True
      with Cons.prems Cons have "\<not> startsWith (toLowerCase xs) (toLowerCase cs)"
        by (simp add: startsWith_def toLowerCase_def)
      then have "matcher (lit_i cs) k (x # pre, xs, caps) = None"
        by (rule Cons.IH)
      with True Cons show ?thesis by (simp add: lit_i_Cons chr_i_def)
    qed
  qed
qed

lemma replace_from_lit_i_noop:
  "\<not> includes_str (toLowerCase t) (toLowerCase p) \<Longrightarrow> replace_from (lit_i p) rep pre t = t"
proof (induction t arbitrary: pre)
  case Nil
  then have "\<not> startsWith (toLowerCase []) (toLowerCase p)"
    by (simp add: toLowerCase_def startsWith_def)
  then show ?case by (simp add: exec_def matcher_lit_i_None)
next
  case (Cons c cs)
  from Cons.prems have a: "\<not> startsWith (toLowerCase (c # cs)) (toLowerCase p)"
    and b: "\<not> includes_str (toLowerCase cs) (toLowerCase p)"
    by (simp_all add: toLowerCase_def)
  from a have "exec (lit_i p) pre (c # cs) = None"
    by (simp add: exec_def matcher_lit_i_None)
  with Cons.IH [OF b] show ?case by simp
qed

lemma replace_all_noop:
  "\<not> includes_str (toLowerCase t) (toLowerCase p) \<Longrightarrow>
   replace_all (RegExp_gi (escapeRegExp p)) rep t = t"
  by (simp add: replace_all_def RegExp_gi_escape replace_from_lit_i_noop)

lemma foldl_replace_noop:
  "\<forall>p \<in> set ps. \<not> includes_str (toLowerCase t) (toLowerCase p) \<Longrightarrow>
   foldl (\<lambda>result p. replace_all (RegExp_gi (escapeRegExp p)) rep result) t ps = t"
  by (induction ps) (simp_all add: replace_all_noop)

lemma redactHoneytrap_noop:
  "\<forall>p \<in> set (emails @ ids). \<not> includes_str (toLowerCase t) (toLowerCase p) \<Longrightarrow>
   redactHoneytrap emails ids t = t"
  by (simp add: redactHoneytrap_def Let_def foldl_replace_noop)


section \<open>Properties of the date recovery\<close>

lemma parse_empty: "parseEmailDateString nd [] = None"
  by (simp add: parseEmailDateString_def)

lemma parse_all_fail:
  assumes "nd ds = None" and "nd (replace_first re_at '' '' ds) = None"
    and "\<forall>rb. rebuiltDate ds = Some rb \<longrightarrow> nd rb = None"
  shows "parseEmailDateString nd ds = None"
  using assms by (simp add: parseEmailDateString_def Let_def split: option.splits)

lemma parse_first:
  "ds \<noteq> [] \<Longrightarrow> nd ds = Some ts \<Longrightarrow> parseEmailDateString nd ds = Some (Some ts)"
  by (simp add: parseEmailDateString_def)

lemma parse_second:
  "ds \<noteq> [] \<Longrightarrow> nd ds = None \<Longrightarrow> nd (replace_first re_at '' '' ds) = Some ts \<Longrightarrow>
   parseEmailDateString nd ds = Some (Some ts)"
  by (simp add: parseEmailDateString_def Let_def)

lemma parse_third:
  "ds \<noteq> [] \<Longrightarrow> nd ds = None \<Longrightarrow> nd (replace_first re_at '' '' ds) = None \<Longrightarrow>
   rebuiltDate ds = Some rb \<Longrightarrow> nd rb = Some ts \<Longrightarrow>
   parseEmailDateString nd ds = Some (Some ts)"
  by (simp add: parseEmailDateString_def Let_def)

lemma dateOfLine_Some_iff:
  "dateOfLine nd nw line = Some d \<longleftrightarrow>
   (\<exists>ds. dateStringOfLine line = Some ds \<and> parseEmailDateString nd ds = Some d \<and>
         isValidEmailDate nw d)"
  by (auto simp: dateOfLine_def split: option.splits if_splits)

lemma isValidEmailDate_Some:
  "isValidEmailDate nw (Some t) =
     (nw - 365 * 24 * 60 * 60 * 1000 \<le> t \<and> t \<le> nw + 24 * 60 * 60 * 1000)"
  by (simp add: isValidEmailDate_def Let_def)

lemma isValidEmailDate_None: "\<not> isValidEmailDate nw None"
  by (simp add: isValidEmailDate_def)

lemma scanDateHeader_mem:
  "scanDateHeader nd nw k ls = Some d \<Longrightarrow> \<exists>line \<in> set ls. dateOfLine nd nw line = Some d"
  by (induction ls arbitrary: k) (auto split: option.splits if_splits)

lemma scanDateBoundaries_mem:
  "scanDateBoundaries nd nw n ls = Some d \<Longrightarrow> \<exists>line \<in> set ls. dateOfLine nd nw line = Some d"
proof (induction nd nw n ls rule: scanDateBoundaries.induct)
  case (3 nd nw n line rest)
  show ?case
  proof (cases "isForwardBoundary line")
    case True
    show ?thesis
    proof (cases "scanDateHeader nd nw 0 (take 20 (line # rest))")
      case None
      with True 3 show ?thesis by auto
    next
      case (Some x)
      with True 3 have x: "x = d" by simp
      from Some [unfolded x] obtain l where
        "l \<in> set (take 20 (line # rest))" "dateOfLine nd nw l = Some d"
        by (blast dest: scanDateHeader_mem)
      moreover have "set (take 20 (line # rest)) \<subseteq> set (line # rest)"
        by (rule set_take_subset)
      ultimately show ?thesis by blast
    qed
  next
    case False
    with 3 show ?thesis by auto
  qed
qed simp_all

lemma extractOriginalEmailDate_mem:
  assumes "extractOriginalEmailDate nd nw h t html = Some d"
  shows "\<exists>line \<in> set (dateLines t) \<union> set (dateLines html). dateOfLine nd nw line = Some d"
proof -
  from assms have "extractOriginalDateFromBody nd nw t = Some d \<or>
      extractOriginalDateFromBody nd nw html = Some d"
    by (auto simp: extractOriginalEmailDate_def split: option.splits if_splits)
  then show ?thesis
    unfolding extractOriginalDateFromBody_def
    by (blast dest: scanDateBoundaries_mem)
qed


section \<open>Properties of the handler\<close>

lemma decode_request_of: "decode (request_of f) = Returns f"
  by (simp add: decode_def request_of_def decodeParams_def startsWith_def)

lemma POST_after_ingest:
  assumes "decode req = Returns f"
    and "truthy (SUPABASE_SERVICE_ROLE_KEY e)"
    and "ingestTextSubmission c (submissionOf e c f) = Returns result"
  shows "POST e c req =
           (fst (afterIngest e c f result),
            Await (Ingest (submissionOf e c f)) # snd (afterIngest e c f result))"
  using assms by (simp add: POST_def Let_def)

lemma nonFundraising_eq:
  assumes "id' result = Some i" and "i \<noteq> []"
  shows "nonFundraising e c f result =
           (Response 200 (OkId (Some i)),
            if isForwarded f \<and> sender f \<noteq> []
            then [Await (NoticeFetch (siteBase e @ ''/api/send-non-fundraising-notice'') i)]
            else [])"
  using assms by (simp add: nonFundraising_def caught_def Let_def split: outcome.splits)

lemma detectedSender_nonempty: "sender f \<noteq> [] \<Longrightarrow> detectedSender e f \<noteq> []"
  by (auto simp: detectedSender_def split: option.splits)


section \<open>The claims\<close>

subsection \<open>C1: a recovered From line is never a honeytrap address\<close>

text \<open>
  C1, as stated, fails on the envelope fallback: a message that is not a forward and
  comes from a configured honeytrap address gets that address as its From line
  (lines 82 to 84 set it without validation).
\<close>

theorem C1_counterexample:
  "\<not> isForwarded msg_plain_decoy \<and>
   originalFromLine env_decoy msg_plain_decoy = Some ''sender@decoy.org'' \<and>
   ''sender@decoy.org'' \<in> set (honeytrapEmails env_decoy)"
  by code_simp

text \<open>
  C1, amended: whenever the final \<open>originalFromLine\<close> is present and was not set by
  the envelope fallback (the message is a forward, or the line differs from the
  envelope sender), no configured honeytrap address occurs in it, in any letter case;
  in particular it is not equal to one.
\<close>

theorem C1_recovered_from_line_validated:
  assumes "originalFromLine e f = Some r"
    and "isForwarded f \<or> r \<noteq> sender f"
  shows "(\<forall>h \<in> set (honeytrapEmails e). \<not> includes_str (toLowerCase r) (toLowerCase h)) \<and>
         r \<notin> set (honeytrapEmails e)"
proof -
  let ?o1 = "extractOriginalFromLine e (rawText0 f)"
  let ?o2 = "if \<not> truthy ?o1 \<and> bodyHtml f \<noteq> []
             then extractOriginalFromLine e (stripHtml (bodyHtml f)) else ?o1"
  from assms have "?o2 = Some r"
    by (auto simp: originalFromLine_def Let_def split: if_splits)
  then obtain t where "extractOriginalFromLine e t = Some r"
    by (auto split: if_splits)
  then obtain g where "validateAndCleanFromLine e g = Some r"
    by (auto dest: extract_validated)
  then have no: "\<forall>h \<in> set (honeytrapEmails e). \<not> includes_str (toLowerCase r) (toLowerCase h)"
    by (rule validate_sound)
  moreover have "r \<notin> set (honeytrapEmails e)"
    using no includes_str_refl by blast
  ultimately show ?thesis by blast
qed

text \<open>The amended C1 at a forwarded message whose body names the original sender.\<close>

theorem C1_witness:
  "originalFromLine env_decoy msg_forward_jane = Some ''Jane Doe <jane@example.org>'' \<and>
   isForwarded msg_forward_jane \<and>
   ''Jane Doe <jane@example.org>'' \<notin> set (honeytrapEmails env_decoy)"
proof -
  have h: "originalFromLine env_decoy msg_forward_jane = Some ''Jane Doe <jane@example.org>''"
    by code_simp
  have fwd: "isForwarded msg_forward_jane"
    by code_simp
  from C1_recovered_from_line_validated [OF h] fwd
  have "''Jane Doe <jane@example.org>'' \<notin> set (honeytrapEmails env_decoy)"
    by blast
  with h fwd show ?thesis by blast
qed

subsection \<open>C2: a forward with no recoverable From line\<close>

text \<open>
  C2, as stated, fails for the sender address: a forward with no From line in its body
  gets the envelope (forwarder's) address as the detected sender, and that address is
  what the ingestion receives as \<open>senderId\<close> (lines 156 to 160 end in the envelope
  sender).
\<close>

theorem C2_counterexample:
  "isForwarded msg_forward_bare \<and>
   extractOriginalFromLine env_decoy (rawText0 msg_forward_bare) = None \<and>
   bodyHtml msg_forward_bare = [] \<and>
   sender msg_forward_bare = ''bob@example.com'' \<and>
   detectedSender env_decoy msg_forward_bare = ''bob@example.com'' \<and>
   senderId (submissionOf env_decoy (collab_of result_plain) msg_forward_bare) =
     Some ''bob@example.com''"
  by code_simp

text \<open>
  C2, amended: for a message classified as forwarded from whose plain-text and HTML
  bodies no From line is recovered, \<open>originalFromLine\<close> stays null and null is what
  the ingestion receives as \<open>emailFrom\<close>.  The detected sender is the address found by
  \<open>extractOriginalSender\<close> in the redacted text, else the address parsed from the
  envelope sender, else the envelope sender itself, and the ingestion receives it as
  \<open>senderId\<close> (null when it is empty).  So \<open>senderId\<close> is non-null whenever the envelope
  sender is non-empty, and null when the envelope sender is empty and
  \<open>extractOriginalSender\<close> finds nothing.
\<close>

theorem C2_forwarded_from_line_stays_null:
  assumes "isForwarded f"
    and "extractOriginalFromLine e (rawText0 f) = None"
    and "bodyHtml f = [] \<or> extractOriginalFromLine e (stripHtml (bodyHtml f)) = None"
  shows "originalFromLine e f = None \<and>
         emailFrom (submissionOf e c f) = None \<and>
         detectedSender e f =
           (case or_opt (extractOriginalSender (redactedText e f))
                   (parseEmailAddress (Some (sender f))) of
              Some a \<Rightarrow> if a \<noteq> [] then a else sender f
            | None \<Rightarrow> sender f) \<and>
         senderId (submissionOf e c f) =
           (if detectedSender e f \<noteq> [] then Some (detectedSender e f) else None) \<and>
         (sender f \<noteq> [] \<longrightarrow> senderId (submissionOf e c f) \<noteq> None) \<and>
         (sender f = [] \<and> extractOriginalSender (redactedText e f) = None
            \<longrightarrow> senderId (submissionOf e c f) = None)"
proof -
  from assms have o: "originalFromLine e f = None"
    by (auto simp: originalFromLine_def Let_def truthy_def)
  then have ef: "emailFrom (submissionOf e c f) = None"
    by (simp add: submissionOf_def orNull_def truthy_def)
  from o have ds: "detectedSender e f =
           (case or_opt (extractOriginalSender (redactedText e f))
                   (parseEmailAddress (Some (sender f))) of
              Some a \<Rightarrow> if a \<noteq> [] then a else sender f
            | None \<Rightarrow> sender f)"
    by (simp add: detectedSender_def orNull_def truthy_def or_opt_def parseEmailAddress_def)
  have si: "senderId (submissionOf e c f) =
           (if detectedSender e f \<noteq> [] then Some (detectedSender e f) else None)"
    by (simp add: submissionOf_def orNull_def truthy_def)
  have ne: "sender f \<noteq> [] \<longrightarrow> senderId (submissionOf e c f) \<noteq> None"
    using si detectedSender_nonempty [of f e] by simp
  have em: "sender f = [] \<and> extractOriginalSender (redactedText e f) = None
            \<longrightarrow> senderId (submissionOf e c f) = None"
  proof
    assume a: "sender f = [] \<and> extractOriginalSender (redactedText e f) = None"
    with ds have "detectedSender e f = []"
      by (simp add: or_opt_def truthy_def parseEmailAddress_def)
    with si show "senderId (submissionOf e c f) = None" by simp
  qed
  from o ef ds si ne em show ?thesis by blast
qed

text \<open>
  The amended C2 at a forward whose body is the two letters \<open>hi\<close>: with the envelope
  sender \<open>bob@example.com\<close>, and with an empty envelope sender.
\<close>

theorem C2_witness:
  "originalFromLine env_decoy msg_forward_bare = None \<and>
   senderId (submissionOf env_decoy (collab_of result_plain) msg_forward_bare) \<noteq> None \<and>
   originalFromLine env_decoy msg_forward_no_envelope = None \<and>
   senderId (submissionOf env_decoy (collab_of result_plain) msg_forward_no_envelope) = None"
proof -
  have a: "isForwarded msg_forward_bare" by code_simp
  have b: "extractOriginalFromLine env_decoy (rawText0 msg_forward_bare) = None" by code_simp
  have h: "bodyHtml msg_forward_bare = [] \<or>
           extractOriginalFromLine env_decoy (stripHtml (bodyHtml msg_forward_bare)) = None"
    by code_simp
  have s: "sender msg_forward_bare \<noteq> []" by code_simp
  have a': "isForwarded msg_forward_no_envelope" by code_simp
  have b': "extractOriginalFromLine env_decoy (rawText0 msg_forward_no_envelope) = None"
    by code_simp
  have h': "bodyHtml msg_forward_no_envelope = [] \<or>
           extractOriginalFromLine env_decoy (stripHtml (bodyHtml msg_forward_no_envelope)) = None"
    by code_simp
  have s': "sender msg_forward_no_envelope = [] \<and>
            extractOriginalSender (redactedText env_decoy msg_forward_no_envelope) = None"
    by code_simp
  from C2_forwarded_from_line_stays_null [OF a b h, of "collab_of result_plain"] s
  have 1: "originalFromLine env_decoy msg_forward_bare = None \<and>
      senderId (submissionOf env_decoy (collab_of result_plain) msg_forward_bare) \<noteq> None"
    by blast
  from C2_forwarded_from_line_stays_null [OF a' b' h', of "collab_of result_plain"] s'
  have 2: "originalFromLine env_decoy msg_forward_no_envelope = None \<and>
      senderId (submissionOf env_decoy (collab_of result_plain) msg_forward_no_envelope) = None"
    by blast
  from 1 2 show ?thesis by blast
qed

subsection \<open>C3: the non-fundraising notice\<close>




subsection \<open>C4: decoding a malformed body\<close>

text \<open>
  C4 fails in the code for the multipart encoding: when \<open>req.formData()\<close> rejects the
  body, the decoder throws and the handler answers 500 \<open>internal_error\<close>, for every
  configuration.  The JSON branch catches the same failure of \<open>req.json()\<close> and decodes
  to empty fields.
\<close>

theorem C4_decoding_can_throw:
  "decode request_bad_multipart = Throws \<and>
   POST e c request_bad_multipart = (Response 500 (ErrorBody ''internal_error''), []) \<and>
   decode request_bad_json =
     Returns \<lparr> sender = [], subject = [], bodyPlain = [], bodyHtml = [], messageHeaders = [] \<rparr>"
proof -
  have a: "decode request_bad_multipart = Throws" by code_simp
  have b: "decode request_bad_json =
     Returns \<lparr> sender = [], subject = [], bodyPlain = [], bodyHtml = [], messageHeaders = [] \<rparr>"
    by code_simp
  from a have "POST e c request_bad_multipart = (Response 500 (ErrorBody ''internal_error''), [])"
    by (simp add: POST_def internal_error_def)
  with a b show ?thesis by simp
qed

text \<open>
  The JSON branch throws as well when a field is an object with an own property
  \<open>toString\<close>, as in \<open>{"sender": {"toString": 1}}\<close>.
\<close>

lemma json_field_conversion_throws_example:
  "decode request_json_object_field = Throws"
  by code_simp

subsection \<open>C5: the envelope fallback of a message that is not a forward\<close>

text \<open>
  C5, as stated, fails when the body opens with a From header: the third forward
  marker takes the line as a boundary, although nothing classifies the message as a
  forward, and the recovered line wins over the envelope sender.
\<close>

theorem C5_counterexample:
  "\<not> isForwarded msg_outlook_quote \<and>
   sender msg_outlook_quote = ''bob@example.com'' \<and>
   originalFromLine env_decoy msg_outlook_quote = Some ''Jane <jane@example.org>''"
  by code_simp

text \<open>
  C5, amended: for a message that is not classified as forwarded and has a non-empty
  envelope sender, \<open>originalFromLine\<close> is the From line recovered from the plain text
  if there is one, else the From line recovered from the stripped HTML body if there
  is an HTML body and it yields one, else the envelope sender.  So it is never null,
  and it equals the envelope sender whenever no From line is recovered.
\<close>

theorem C5_recovered_line_else_envelope:
  assumes "\<not> isForwarded f" and "sender f \<noteq> []"
  shows "originalFromLine e f =
           (case extractOriginalFromLine e (rawText0 f) of
              Some r \<Rightarrow> Some r
            | None \<Rightarrow>
                (case (if bodyHtml f \<noteq> []
                       then extractOriginalFromLine e (stripHtml (bodyHtml f)) else None) of
                   Some r \<Rightarrow> Some r
                 | None \<Rightarrow> Some (sender f)))"
proof (cases "extractOriginalFromLine e (rawText0 f)")
  case (Some r)
  then have "truthy (extractOriginalFromLine e (rawText0 f))"
    using extract_truthy [of e "rawText0 f" r] by simp
  with Some show ?thesis by (simp add: originalFromLine_def Let_def)
next
  case None
  then have n: "\<not> truthy (extractOriginalFromLine e (rawText0 f))"
    by (simp add: truthy_def)
  show ?thesis
  proof (cases "bodyHtml f \<noteq> []")
    case False
    with None n assms show ?thesis
      by (simp add: originalFromLine_def Let_def truthy_def)
  next
    case True
    show ?thesis
    proof (cases "extractOriginalFromLine e (stripHtml (bodyHtml f))")
      case None
      with \<open>extractOriginalFromLine e (rawText0 f) = None\<close> n True assms show ?thesis
        by (simp add: originalFromLine_def Let_def truthy_def)
    next
      case (Some r)
      then have "truthy (Some r)" by (rule extract_truthy)
      with Some \<open>extractOriginalFromLine e (rawText0 f) = None\<close> n True show ?thesis
        by (simp add: originalFromLine_def Let_def)
    qed
  qed
qed

text \<open>
  The amended C5 at a plain message from \<open>bob@example.com\<close>, at a message whose text
  opens with a From header, and at a message whose HTML body holds one.
\<close>

theorem C5_witness:
  "originalFromLine env_decoy msg_plain_bob = Some ''bob@example.com'' \<and>
   originalFromLine env_decoy msg_outlook_quote = Some ''Jane <jane@example.org>'' \<and>
   originalFromLine env_decoy msg_html_quote = Some ''Jane jane@example.org''"
proof -
  have a1: "\<not> isForwarded msg_plain_bob" "sender msg_plain_bob \<noteq> []" by code_simp+
  have a2: "\<not> isForwarded msg_outlook_quote" "sender msg_outlook_quote \<noteq> []" by code_simp+
  have a3: "\<not> isForwarded msg_html_quote" "sender msg_html_quote \<noteq> []" by code_simp+
  have r1: "(case extractOriginalFromLine env_decoy (rawText0 msg_plain_bob) of
              Some r \<Rightarrow> Some r
            | None \<Rightarrow>
                (case (if bodyHtml msg_plain_bob \<noteq> []
                       then extractOriginalFromLine env_decoy (stripHtml (bodyHtml msg_plain_bob))
                       else None) of
                   Some r \<Rightarrow> Some r
                 | None \<Rightarrow> Some (sender msg_plain_bob))) = Some ''bob@example.com''"
    by code_simp
  have r2: "(case extractOriginalFromLine env_decoy (rawText0 msg_outlook_quote) of
              Some r \<Rightarrow> Some r
            | None \<Rightarrow>
                (case (if bodyHtml msg_outlook_quote \<noteq> []
                       then extractOriginalFromLine env_decoy (stripHtml (bodyHtml msg_outlook_quote))
                       else None) of
                   Some r \<Rightarrow> Some r
                 | None \<Rightarrow> Some (sender msg_outlook_quote))) = Some ''Jane <jane@example.org>''"
    by code_simp
  have r3: "(case extractOriginalFromLine env_decoy (rawText0 msg_html_quote) of
              Some r \<Rightarrow> Some r
            | None \<Rightarrow>
                (case (if bodyHtml msg_html_quote \<noteq> []
                       then extractOriginalFromLine env_decoy (stripHtml (bodyHtml msg_html_quote))
                       else None) of
                   Some r \<Rightarrow> Some r
                 | None \<Rightarrow> Some (sender msg_html_quote))) = Some ''Jane jane@example.org''"
    by code_simp
  from C5_recovered_line_else_envelope [OF a1, of env_decoy] r1
  have 1: "originalFromLine env_decoy msg_plain_bob = Some ''bob@example.com''" by simp
  from C5_recovered_line_else_envelope [OF a2, of env_decoy] r2
  have 2: "originalFromLine env_decoy msg_outlook_quote = Some ''Jane <jane@example.org>''" by simp
  from C5_recovered_line_else_envelope [OF a3, of env_decoy] r3
  have 3: "originalFromLine env_decoy msg_html_quote = Some ''Jane jane@example.org''" by simp
  from 1 2 3 show ?thesis by blast
qed

subsection \<open>C6: no honeytrap address survives redaction\<close>

text \<open>
  C6 fails in the code: each address is replaced in one pass from left to right, and
  the last letter of the placeholder joins the text after it.  The subject
  \<open>mike@example.comike@example.com\<close> reaches the ingestion with the honeytrap
  address \<open>mike@example.com\<close> in it.
\<close>

theorem C6_subject_leak:
  "''mike@example.com'' \<in> set (honeytrapEmails env_decoy) \<and>
   emailSubject (submissionOf env_decoy (collab_of result_plain) msg_evasive) =
     Some ''*******@*******.comike@example.com'' \<and>
   includes_str (toLowerCase ''*******@*******.comike@example.com'') (toLowerCase ''mike@example.com'')"
  by code_simp

subsection \<open>C7: date normalization\<close>

text \<open>
  C7: date normalization is total (nothing is raised) and returns null whenever every
  strategy fails or the parsed timestamp lies outside the window.  In full:
  \<^item> \<open>parseEmailDateString\<close> is null on the empty string and whenever the direct
    parse, the parse with the word \<open>at\<close> removed and the parse of the reassembled
    month, day and year all fail; otherwise it is the timestamp of the first of the
    three that succeeds;
  \<^item> the date of a line is null when the line is no \<open>Date:\<close> or \<open>Sent:\<close> header,
    when \<open>parseEmailDateString\<close> is null on its date string, and when the parsed
    timestamp is earlier than now minus 365 days or later than now plus one day;
    it is the parsed timestamp when that lies in the window;
  \<^item> a date recovered from the whole message is the date of one of the lines of the
    plain-text or HTML body, so it lies in the window.
\<close>

theorem C7_date_normalization:
  "parseEmailDateString nd [] = None \<and>
   (nd ds = None \<and> nd (replace_first re_at '' '' ds) = None \<and>
    (\<forall>rb. rebuiltDate ds = Some rb \<longrightarrow> nd rb = None)
      \<longrightarrow> parseEmailDateString nd ds = None) \<and>
   (ds \<noteq> [] \<and> nd ds = Some ts \<longrightarrow> parseEmailDateString nd ds = Some (Some ts)) \<and>
   (ds \<noteq> [] \<and> nd ds = None \<and> nd (replace_first re_at '' '' ds) = Some ts
      \<longrightarrow> parseEmailDateString nd ds = Some (Some ts)) \<and>
   (ds \<noteq> [] \<and> nd ds = None \<and> nd (replace_first re_at '' '' ds) = None \<and>
    rebuiltDate ds = Some rb \<and> nd rb = Some ts
      \<longrightarrow> parseEmailDateString nd ds = Some (Some ts)) \<and>
   (dateStringOfLine line = None \<longrightarrow> dateOfLine nd nw line = None) \<and>
   (dateStringOfLine line = Some ds \<and> parseEmailDateString nd ds = None
      \<longrightarrow> dateOfLine nd nw line = None) \<and>
   (dateStringOfLine line = Some ds \<and> parseEmailDateString nd ds = Some (Some ts) \<and>
    (ts < nw - 365 * 24 * 60 * 60 * 1000 \<or> nw + 24 * 60 * 60 * 1000 < ts)
      \<longrightarrow> dateOfLine nd nw line = None) \<and>
   (dateStringOfLine line = Some ds \<and> parseEmailDateString nd ds = Some (Some ts) \<and>
    nw - 365 * 24 * 60 * 60 * 1000 \<le> ts \<and> ts \<le> nw + 24 * 60 * 60 * 1000
      \<longrightarrow> dateOfLine nd nw line = Some (Some ts)) \<and>
   (extractOriginalEmailDate nd nw hdrs btext html = Some d
      \<longrightarrow> (\<exists>l t. l \<in> set (dateLines btext) \<union> set (dateLines html) \<and>
                 dateOfLine nd nw l = Some (Some t) \<and> d = Some t \<and>
                 nw - 365 * 24 * 60 * 60 * 1000 \<le> t \<and> t \<le> nw + 24 * 60 * 60 * 1000))"
proof (intro conjI impI)
  show "parseEmailDateString nd [] = None" by (rule parse_empty)
next
  assume "nd ds = None \<and> nd (replace_first re_at '' '' ds) = None \<and>
    (\<forall>rb. rebuiltDate ds = Some rb \<longrightarrow> nd rb = None)"
  then show "parseEmailDateString nd ds = None" by (simp add: parse_all_fail)
next
  assume "ds \<noteq> [] \<and> nd ds = Some ts"
  then show "parseEmailDateString nd ds = Some (Some ts)" by (simp add: parse_first)
next
  assume "ds \<noteq> [] \<and> nd ds = None \<and> nd (replace_first re_at '' '' ds) = Some ts"
  then show "parseEmailDateString nd ds = Some (Some ts)" by (simp add: parse_second)
next
  assume "ds \<noteq> [] \<and> nd ds = None \<and> nd (replace_first re_at '' '' ds) = None \<and>
    rebuiltDate ds = Some rb \<and> nd rb = Some ts"
  then show "parseEmailDateString nd ds = Some (Some ts)" by (simp add: parse_third)
next
  assume "dateStringOfLine line = None"
  then show "dateOfLine nd nw line = None" by (simp add: dateOfLine_def)
next
  assume "dateStringOfLine line = Some ds \<and> parseEmailDateString nd ds = None"
  then show "dateOfLine nd nw line = None" by (simp add: dateOfLine_def)
next
  assume "dateStringOfLine line = Some ds \<and> parseEmailDateString nd ds = Some (Some ts) \<and>
    (ts < nw - 365 * 24 * 60 * 60 * 1000 \<or> nw + 24 * 60 * 60 * 1000 < ts)"
  then show "dateOfLine nd nw line = None"
    by (auto simp: dateOfLine_def isValidEmailDate_Some)
next
  assume "dateStringOfLine line = Some ds \<and> parseEmailDateString nd ds = Some (Some ts) \<and>
    nw - 365 * 24 * 60 * 60 * 1000 \<le> ts \<and> ts \<le> nw + 24 * 60 * 60 * 1000"
  then show "dateOfLine nd nw line = Some (Some ts)"
    by (simp add: dateOfLine_def isValidEmailDate_Some)
next
  assume "extractOriginalEmailDate nd nw hdrs btext html = Some d"
  then obtain l where l: "l \<in> set (dateLines btext) \<union> set (dateLines html)"
    and dl: "dateOfLine nd nw l = Some d"
    by (blast dest: extractOriginalEmailDate_mem)
  from dl have v: "isValidEmailDate nw d" by (auto simp: dateOfLine_Some_iff)
  then obtain t where t: "d = Some t"
    by (cases d) (simp_all add: isValidEmailDate_None)
  with v have w: "nw - 365 * 24 * 60 * 60 * 1000 \<le> t \<and> t \<le> nw + 24 * 60 * 60 * 1000"
    by (simp add: isValidEmailDate_Some)
  from l dl t w show "\<exists>l t. l \<in> set (dateLines btext) \<union> set (dateLines html) \<and>
      dateOfLine nd nw l = Some (Some t) \<and> d = Some t \<and>
      nw - 365 * 24 * 60 * 60 * 1000 \<le> t \<and> t \<le> nw + 24 * 60 * 60 * 1000"
    by blast
qed

text \<open>
  C7 at a clock of 2026-11-03: a date no strategy parses, a date each of the three
  strategies parses, a header dated two years back (null, not the date), a header
  dated ten months back, a line that is no header, and a whole forwarded message.
\<close>

theorem C7_witness:
  "parseEmailDateString newDate_old ''Sat, Dec 27, 2025 at 8:33 PM'' = None \<and>
   parseEmailDateString newDate_old ''Mon, 4 Nov 2024 10:00:00 +0000'' = Some (Some 1730714400000) \<and>
   parseEmailDateString newDate_recent ''Mon, Jan 5, 2026 at 3:00 PM'' = Some (Some 1767625200000) \<and>
   parseEmailDateString newDate_rebuilt ''Sat, Dec 27, 2025 at 8:33 PM'' = Some (Some 1766867580000) \<and>
   dateOfLine newDate_old now_example ''Subject: Help us win'' = None \<and>
   dateOfLine newDate_old now_example ''Date: Sat, Dec 27, 2025 at 8:33 PM'' = None \<and>
   dateOfLine newDate_old now_example ''Date: Mon, 4 Nov 2024 10:00:00 +0000'' = None \<and>
   dateOfLine newDate_recent now_example ''Date: Mon, Jan 5, 2026 at 3:00 PM'' =
     Some (Some 1767625200000) \<and>
   extractOriginalEmailDate newDate_old now_example [] body_two_years_old [] = None \<and>
   (\<exists>l t. l \<in> set (dateLines (bodyPlain msg_forward_jane)) \<union> set (dateLines []) \<and>
      dateOfLine newDate_recent now_example l = Some (Some t) \<and>
      Some 1767625200000 = Some t \<and>
      now_example - 365 * 24 * 60 * 60 * 1000 \<le> t \<and> t \<le> now_example + 24 * 60 * 60 * 1000)"
proof -
  let ?dec = "''Sat, Dec 27, 2025 at 8:33 PM''"
  let ?nov = "''Mon, 4 Nov 2024 10:00:00 +0000''"
  let ?jan = "''Mon, Jan 5, 2026 at 3:00 PM''"
  note T = C7_date_normalization
  have rb: "rebuiltDate ?dec = Some ''Dec 27, 2025 20:33''" by code_simp
  have at_dec: "replace_first re_at '' '' ?dec = ''Sat, Dec 27, 2025 8:33 PM''" by code_simp
  have at_jan: "replace_first re_at '' '' ?jan = ''Mon, Jan 5, 2026 3:00 PM''" by code_simp
  have f0: "newDate_old ?dec = None \<and> newDate_old (replace_first re_at '' '' ?dec) = None \<and>
      (\<forall>rb. rebuiltDate ?dec = Some rb \<longrightarrow> newDate_old rb = None)"
    by (simp add: rb at_dec newDate_old_def)
  from T [where nd = newDate_old and ds = ?dec, THEN conjunct2, THEN conjunct1] f0
  have p0: "parseEmailDateString newDate_old ?dec = None"
    by (rule mp)
  have f1: "?nov \<noteq> [] \<and> newDate_old ?nov = Some 1730714400000"
    by (simp add: newDate_old_def)
  from T [where nd = newDate_old and ds = ?nov and ts = 1730714400000,
          THEN conjunct2, THEN conjunct2, THEN conjunct1] f1
  have p1: "parseEmailDateString newDate_old ?nov = Some (Some 1730714400000)"
    by (rule mp)
  have f2: "?jan \<noteq> [] \<and> newDate_recent ?jan = None \<and>
      newDate_recent (replace_first re_at '' '' ?jan) = Some 1767625200000"
    by (simp add: at_jan newDate_recent_def)
  from T [where nd = newDate_recent and ds = ?jan and ts = 1767625200000,
          THEN conjunct2, THEN conjunct2, THEN conjunct2, THEN conjunct1] f2
  have p2: "parseEmailDateString newDate_recent ?jan = Some (Some 1767625200000)"
    by (rule mp)
  have f3: "?dec \<noteq> [] \<and> newDate_rebuilt ?dec = None \<and>
      newDate_rebuilt (replace_first re_at '' '' ?dec) = None \<and>
      rebuiltDate ?dec = Some ''Dec 27, 2025 20:33'' \<and>
      newDate_rebuilt ''Dec 27, 2025 20:33'' = Some 1766867580000"
    by (simp add: rb at_dec newDate_rebuilt_def)
  from T [where nd = newDate_rebuilt and ds = ?dec and ts = 1766867580000
            and rb = "''Dec 27, 2025 20:33''",
          THEN conjunct2, THEN conjunct2, THEN conjunct2, THEN conjunct2, THEN conjunct1] f3
  have p3: "parseEmailDateString newDate_rebuilt ?dec = Some (Some 1766867580000)"
    by (rule mp)
  have s0: "dateStringOfLine ''Subject: Help us win'' = None" by code_simp
  from T [where nd = newDate_old and nw = now_example and line = "''Subject: Help us win''",
          THEN conjunct2, THEN conjunct2, THEN conjunct2, THEN conjunct2, THEN conjunct2,
          THEN conjunct1] s0
  have l0: "dateOfLine newDate_old now_example ''Subject: Help us win'' = None"
    by (rule mp)
  have s1: "dateStringOfLine ''Date: Sat, Dec 27, 2025 at 8:33 PM'' = Some ?dec" by code_simp
  from s1 p0 have h1: "dateStringOfLine ''Date: Sat, Dec 27, 2025 at 8:33 PM'' = Some ?dec \<and>
      parseEmailDateString newDate_old ?dec = None"
    by (rule conjI)
  from T [where nd = newDate_old and nw = now_example and ds = ?dec
            and line = "''Date: Sat, Dec 27, 2025 at 8:33 PM''",
          THEN conjunct2, THEN conjunct2, THEN conjunct2, THEN conjunct2, THEN conjunct2,
          THEN conjunct2, THEN conjunct1] h1
  have l1: "dateOfLine newDate_old now_example ''Date: Sat, Dec 27, 2025 at 8:33 PM'' = None"
    by (rule mp)
  have s2: "dateStringOfLine ''Date: Mon, 4 Nov 2024 10:00:00 +0000'' = Some ?nov" by code_simp
  have old: "(1730714400000 :: int) < now_example - 365 * 24 * 60 * 60 * 1000 \<or>
      now_example + 24 * 60 * 60 * 1000 < (1730714400000 :: int)"
    by (simp add: now_example_def)
  from s2 p1 old have h2: "dateStringOfLine ''Date: Mon, 4 Nov 2024 10:00:00 +0000'' = Some ?nov \<and>
      parseEmailDateString newDate_old ?nov = Some (Some 1730714400000) \<and>
      ((1730714400000 :: int) < now_example - 365 * 24 * 60 * 60 * 1000 \<or>
       now_example + 24 * 60 * 60 * 1000 < (1730714400000 :: int))"
    by (intro conjI)
  from T [where nd = newDate_old and nw = now_example and ds = ?nov and ts = 1730714400000
            and line = "''Date: Mon, 4 Nov 2024 10:00:00 +0000''",
          THEN conjunct2, THEN conjunct2, THEN conjunct2, THEN conjunct2, THEN conjunct2,
          THEN conjunct2, THEN conjunct2, THEN conjunct1] h2
  have l2: "dateOfLine newDate_old now_example ''Date: Mon, 4 Nov 2024 10:00:00 +0000'' = None"
    by (rule mp)
  have s3: "dateStringOfLine ''Date: Mon, Jan 5, 2026 at 3:00 PM'' = Some ?jan" by code_simp
  have new1: "now_example - 365 * 24 * 60 * 60 * 1000 \<le> (1767625200000 :: int)"
    by (simp add: now_example_def)
  have new2: "(1767625200000 :: int) \<le> now_example + 24 * 60 * 60 * 1000"
    by (simp add: now_example_def)
  from s3 p2 new1 new2 have h3: "dateStringOfLine ''Date: Mon, Jan 5, 2026 at 3:00 PM'' = Some ?jan \<and>
      parseEmailDateString newDate_recent ?jan = Some (Some 1767625200000) \<and>
      now_example - 365 * 24 * 60 * 60 * 1000 \<le> (1767625200000 :: int) \<and>
      (1767625200000 :: int) \<le> now_example + 24 * 60 * 60 * 1000"
    by (intro conjI)
  from T [where nd = newDate_recent and nw = now_example and ds = ?jan and ts = 1767625200000
            and line = "''Date: Mon, Jan 5, 2026 at 3:00 PM''",
          THEN conjunct2, THEN conjunct2, THEN conjunct2, THEN conjunct2, THEN conjunct2,
          THEN conjunct2, THEN conjunct2, THEN conjunct2, THEN conjunct1] h3
  have l3: "dateOfLine newDate_recent now_example ''Date: Mon, Jan 5, 2026 at 3:00 PM'' =
      Some (Some 1767625200000)"
    by (rule mp)
  have w0: "extractOriginalEmailDate newDate_old now_example [] body_two_years_old [] = None"
    by code_simp
  have w1: "extractOriginalEmailDate newDate_recent now_example [] (bodyPlain msg_forward_jane) [] =
      Some (Some 1767625200000)"
    by code_simp
  from T [where nd = newDate_recent and nw = now_example and hdrs = "[]"
            and btext = "bodyPlain msg_forward_jane" and html = "[]"
            and d = "Some 1767625200000",
          THEN conjunct2, THEN conjunct2, THEN conjunct2, THEN conjunct2, THEN conjunct2,
          THEN conjunct2, THEN conjunct2, THEN conjunct2, THEN conjunct2] w1
  have w: "\<exists>l t. l \<in> set (dateLines (bodyPlain msg_forward_jane)) \<union> set (dateLines []) \<and>
      dateOfLine newDate_recent now_example l = Some (Some t) \<and>
      Some 1767625200000 = Some t \<and>
      now_example - 365 * 24 * 60 * 60 * 1000 \<le> t \<and> t \<le> now_example + 24 * 60 * 60 * 1000"
    by (rule mp)
  from p0 p1 p2 p3 l0 l1 l2 l3 w0 w show ?thesis by (intro conjI)
qed

subsection \<open>C8: redacting twice\<close>

text \<open>
  C8 fails in the code, by the defect of C6: with the honeytrap address
  \<open>mike@example.com\<close> configured, the text \<open>mike@example.comike@example.com\<close> is
  redacted to the placeholder followed by \<open>ike@example.com\<close>, in which the address
  stands again, and redacting that text changes it once more.
\<close>

theorem C8_second_redaction_differs:
  "redactHoneytrap (honeytrapEmails env_decoy) (honeytrapIds env_decoy)
     ''mike@example.comike@example.com'' = ''*******@*******.comike@example.com'' \<and>
   redactHoneytrap (honeytrapEmails env_decoy) (honeytrapIds env_decoy)
     ''*******@*******.comike@example.com'' = ''*******@*******.co*******@*******.com'' \<and>
   redactHoneytrap (honeytrapEmails env_decoy) (honeytrapIds env_decoy)
     (redactHoneytrap (honeytrapEmails env_decoy) (honeytrapIds env_decoy)
        ''mike@example.comike@example.com'') \<noteq>
   redactHoneytrap (honeytrapEmails env_decoy) (honeytrapIds env_decoy)
     ''mike@example.comike@example.com''"
  by code_simp

subsection \<open>C9: a reported duplicate\<close>

text \<open>
  C9: whenever the ingestion reports a duplicate (\<open>ok\<close> false, \<open>error\<close> equal to
  \<open>duplicate\<close>), the handler answers 200 with the duplicate flag and the id, and the
  ingestion is the only collaborator it called: no pipeline trigger, no screenshot, no
  notice.
\<close>

theorem C9_duplicate_no_triggers:
  assumes "decode req = Returns f"
    and "truthy (SUPABASE_SERVICE_ROLE_KEY e)"
    and "ingestTextSubmission c (submissionOf e c f) = Returns result"
    and "\<not> ok result" and "error result = Some ''duplicate''"
  shows "POST e c req =
           (Response 200 (OkDuplicate (id' result)), [Await (Ingest (submissionOf e c f))])"
proof -
  from assms(4,5) have "afterIngest e c f result = (Response 200 (OkDuplicate (id' result)), [])"
    by (simp add: afterIngest_def)
  with POST_after_ingest [OF assms(1-3)] show ?thesis by simp
qed

text \<open>C9 at a forwarded fundraising message that the ingestion reports as a duplicate.\<close>

theorem C9_witness:
  "POST env_decoy (collab_of result_duplicate) (request_of msg_forward_jane) =
     (Response 200 (OkDuplicate (Some ''case-0'')),
      [Await (Ingest (submissionOf env_decoy (collab_of result_duplicate) msg_forward_jane))])"
proof -
  have k: "truthy (SUPABASE_SERVICE_ROLE_KEY env_decoy)" by code_simp
  have i: "ingestTextSubmission (collab_of result_duplicate) s = Returns result_duplicate" for s
    by (simp add: collab_of_def)
  have r: "\<not> ok result_duplicate" "error result_duplicate = Some ''duplicate''"
    by (simp_all add: result_duplicate_def)
  have d: "id' result_duplicate = Some ''case-0''" by (simp add: result_duplicate_def)
  from C9_duplicate_no_triggers [OF decode_request_of k i r] d show ?thesis by simp
qed

subsection \<open>C10: a failed ingestion that still has an id\<close>

text \<open>
  C10, as stated, fails in the fundraising branch: the handler awaits
  \<open>triggerPipelines\<close>, and when that call throws the answer is 500 \<open>internal_error\<close>,
  not 200.
\<close>

theorem C10_counterexample:
  "\<not> ok result_failed_with_id \<and>
   error result_failed_with_id = Some ''insert_failed'' \<and>
   id' result_failed_with_id = Some ''case-2'' \<and>
   POST env_decoy (collab_failing result_failed_with_id) (request_of msg_forward_jane) =
     (Response 500 (ErrorBody ''internal_error''),
      [Await (Ingest (submissionOf env_decoy (collab_failing result_failed_with_id) msg_forward_jane)),
       Await (TriggerPipelines ''case-2'')])"
  by code_simp

text \<open>
  C10, amended: when the ingestion returns \<open>ok\<close> false with an error other than
  \<open>duplicate\<close> and a non-empty id, the handler never answers 500 \<open>ingest_failed\<close>; it
  goes on as after a successful ingestion.  If the result is fundraising it awaits
  \<open>triggerPipelines\<close>: when that returns it starts the screenshot fetch, without
  awaiting it, if there is a landing URL, and answers 200 with the id; when that
  throws it answers 500 \<open>internal_error\<close>.  If the result is not fundraising it awaits
  the notice if the message is a forward with a non-empty envelope sender, and
  answers 200 with the id.
\<close>

theorem C10_failure_with_id_falls_through:
  assumes "decode req = Returns f"
    and "truthy (SUPABASE_SERVICE_ROLE_KEY e)"
    and "ingestTextSubmission c (submissionOf e c f) = Returns result"
    and "\<not> ok result" and "error result \<noteq> Some ''duplicate''"
    and "id' result = Some i" and "i \<noteq> []"
  shows "fst (POST e c req) \<noteq> Response 500 (ErrorBody ''ingest_failed'') \<and>
         POST e c req =
           (if isFundraising result = Some True then
              (case triggerPipelines c i of
                 Throws \<Rightarrow>
                   (Response 500 (ErrorBody ''internal_error''),
                    [Await (Ingest (submissionOf e c f)), Await (TriggerPipelines i)])
               | Returns u \<Rightarrow>
                   (Response 200 (OkId (Some i)),
                    [Await (Ingest (submissionOf e c f)), Await (TriggerPipelines i)] @
                    (case landingUrl result of
                       None \<Rightarrow> []
                     | Some url \<Rightarrow>
                         if url \<noteq> []
                         then [Detach (ScreenshotFetch (siteBase e @ ''/api/screenshot-actblue'') i url)]
                         else [])))
            else
              (Response 200 (OkId (Some i)),
               Await (Ingest (submissionOf e c f)) #
                 (if isForwarded f \<and> sender f \<noteq> []
                  then [Await (NoticeFetch (siteBase e @ ''/api/send-non-fundraising-notice'') i)]
                  else [])))"
proof -
  from assms(4-7) have a: "afterIngest e c f result =
      (if isFundraising result = Some True then fundraising e c result i
       else nonFundraising e c f result)"
    by (simp add: afterIngest_def truthy_def)
  note n = nonFundraising_eq [OF assms(6,7), of e c f]
  have eq: "POST e c req =
           (if isFundraising result = Some True then
              (case triggerPipelines c i of
                 Throws \<Rightarrow>
                   (Response 500 (ErrorBody ''internal_error''),
                    [Await (Ingest (submissionOf e c f)), Await (TriggerPipelines i)])
               | Returns u \<Rightarrow>
                   (Response 200 (OkId (Some i)),
                    [Await (Ingest (submissionOf e c f)), Await (TriggerPipelines i)] @
                    (case landingUrl result of
                       None \<Rightarrow> []
                     | Some url \<Rightarrow>
                         if url \<noteq> []
                         then [Detach (ScreenshotFetch (siteBase e @ ''/api/screenshot-actblue'') i url)]
                         else [])))
            else
              (Response 200 (OkId (Some i)),
               Await (Ingest (submissionOf e c f)) #
                 (if isForwarded f \<and> sender f \<noteq> []
                  then [Await (NoticeFetch (siteBase e @ ''/api/send-non-fundraising-notice'') i)]
                  else [])))"
    using POST_after_ingest [OF assms(1-3)] a n assms(6)
    by (simp add: fundraising_def internal_error_def split: outcome.splits)
  then have ne: "fst (POST e c req) \<noteq> Response 500 (ErrorBody ''ingest_failed'')"
    by (simp split: if_splits outcome.splits)
  from ne eq show ?thesis by (rule conjI)
qed

text \<open>
  The amended C10 at a failed fundraising ingestion with id \<open>case-2\<close> and a landing
  URL, and at a failed ingestion with id \<open>case-3\<close> that is not fundraising, for a
  forward whose notice fetch is rejected.
\<close>

theorem C10_witness:
  "POST env_decoy (collab_of result_failed_with_id) (request_of msg_forward_jane) =
     (Response 200 (OkId (Some ''case-2'')),
      [Await (Ingest (submissionOf env_decoy (collab_of result_failed_with_id) msg_forward_jane)),
       Await (TriggerPipelines ''case-2''),
       Detach (ScreenshotFetch ''https://site/api/screenshot-actblue'' ''case-2''
         ''https://secure.actblue.com/donate/x'')]) \<and>
   POST env_decoy (collab_failing result_failed_plain) (request_of msg_forward_jane) =
     (Response 200 (OkId (Some ''case-3'')),
      [Await (Ingest (submissionOf env_decoy (collab_failing result_failed_plain) msg_forward_jane)),
       Await (NoticeFetch ''https://site/api/send-non-fundraising-notice'' ''case-3'')])"
proof -
  have k: "truthy (SUPABASE_SERVICE_ROLE_KEY env_decoy)" by code_simp
  have i: "ingestTextSubmission (collab_of result_failed_with_id) s = Returns result_failed_with_id" for s
    by (simp add: collab_of_def)
  have r: "\<not> ok result_failed_with_id" "error result_failed_with_id \<noteq> Some ''duplicate''"
    "id' result_failed_with_id = Some ''case-2''" "''case-2'' \<noteq> []"
    by (simp_all add: result_failed_with_id_def)
  have x: "isFundraising result_failed_with_id = Some True \<and>
      triggerPipelines (collab_of result_failed_with_id) ''case-2'' = Returns () \<and>
      landingUrl result_failed_with_id = Some ''https://secure.actblue.com/donate/x'' \<and>
      siteBase env_decoy @ ''/api/screenshot-actblue'' = ''https://site/api/screenshot-actblue''"
    by code_simp
  from C10_failure_with_id_falls_through [OF decode_request_of k i r] x
  have 1: "POST env_decoy (collab_of result_failed_with_id) (request_of msg_forward_jane) =
     (Response 200 (OkId (Some ''case-2'')),
      [Await (Ingest (submissionOf env_decoy (collab_of result_failed_with_id) msg_forward_jane)),
       Await (TriggerPipelines ''case-2''),
       Detach (ScreenshotFetch ''https://site/api/screenshot-actblue'' ''case-2''
         ''https://secure.actblue.com/donate/x'')])"
    by simp
  have i': "ingestTextSubmission (collab_failing result_failed_plain) s = Returns result_failed_plain" for s
    by (simp add: collab_failing_def)
  have r': "\<not> ok result_failed_plain" "error result_failed_plain \<noteq> Some ''duplicate''"
    "id' result_failed_plain = Some ''case-3''" "''case-3'' \<noteq> []"
    by (simp_all add: result_failed_plain_def)
  have x': "isFundraising result_failed_plain \<noteq> Some True \<and>
      isForwarded msg_forward_jane \<and> sender msg_forward_jane \<noteq> [] \<and>
      siteBase env_decoy @ ''/api/send-non-fundraising-notice'' =
        ''https://site/api/send-non-fundraising-notice''"
    by code_simp
  from C10_failure_with_id_falls_through [OF decode_request_of k i' r'] x'
  have 2: "POST env_decoy (collab_failing result_failed_plain) (request_of msg_forward_jane) =
     (Response 200 (OkId (Some ''case-3'')),
      [Await (Ingest (submissionOf env_decoy (collab_failing result_failed_plain) msg_forward_jane)),
       Await (NoticeFetch ''https://site/api/send-non-fundraising-notice'' ''case-3'')])"
    by simp
  from 1 2 show ?thesis by (rule conjI)
qed

end
